theory Spec2Isabelle
  imports Complex_Main
begin

section \<open>Numeric cells\<close>

text \<open>
  Every numeric cell of a pandas frame is a float64. A finite value is modelled by the
  real number it denotes, and the two zeros are not told apart: a zero divisor counts as
  \<open>+0\<close>. The operations below compute on these reals exactly; the rounding of a
  float64 result is \<open>round64\<close>, applied where a rule compares a value with a computed
  threshold (the product \<open>target * 1.15\<close> of the cost rules), since there the last bit
  decides the comparison. Overflow of finite arithmetic is not modelled. The three
  special values are kept, since the code produces them: \<open>NaN\<close> is pandas' missing
  value, and a division by zero yields an infinity or \<open>NaN\<close>, never an exception.
\<close>

datatype fl = NaN | NInf | Fin real | PInf

fun fneg :: "fl \<Rightarrow> fl" where
  "fneg NaN = NaN"
| "fneg NInf = PInf"
| "fneg (Fin a) = Fin (- a)"
| "fneg PInf = NInf"

fun fadd :: "fl \<Rightarrow> fl \<Rightarrow> fl" where
  "fadd (Fin a) (Fin b) = Fin (a + b)"
| "fadd NaN _ = NaN"
| "fadd _ NaN = NaN"
| "fadd PInf NInf = NaN"
| "fadd NInf PInf = NaN"
| "fadd PInf _ = PInf"
| "fadd _ PInf = PInf"
| "fadd NInf _ = NInf"
| "fadd _ NInf = NInf"

definition fsub :: "fl \<Rightarrow> fl \<Rightarrow> fl" where
  "fsub a b = fadd a (fneg b)"

fun fmul :: "fl \<Rightarrow> fl \<Rightarrow> fl" where
  "fmul (Fin a) (Fin b) = Fin (a * b)"
| "fmul NaN _ = NaN"
| "fmul _ NaN = NaN"
| "fmul (Fin a) PInf = (if a = 0 then NaN else if 0 < a then PInf else NInf)"
| "fmul (Fin a) NInf = (if a = 0 then NaN else if 0 < a then NInf else PInf)"
| "fmul PInf (Fin b) = (if b = 0 then NaN else if 0 < b then PInf else NInf)"
| "fmul NInf (Fin b) = (if b = 0 then NaN else if 0 < b then NInf else PInf)"
| "fmul PInf PInf = PInf"
| "fmul NInf NInf = PInf"
| "fmul PInf NInf = NInf"
| "fmul NInf PInf = NInf"

fun fdiv :: "fl \<Rightarrow> fl \<Rightarrow> fl" where
  "fdiv (Fin a) (Fin b) =
     (if b = 0 then (if a = 0 then NaN else if 0 < a then PInf else NInf)
      else Fin (a / b))"
| "fdiv NaN _ = NaN"
| "fdiv _ NaN = NaN"
| "fdiv (Fin a) PInf = Fin 0"
| "fdiv (Fin a) NInf = Fin 0"
| "fdiv PInf (Fin b) = (if b < 0 then NInf else PInf)"
| "fdiv NInf (Fin b) = (if b < 0 then PInf else NInf)"
| "fdiv PInf PInf = NaN"
| "fdiv PInf NInf = NaN"
| "fdiv NInf PInf = NaN"
| "fdiv NInf NInf = NaN"

fun fabs :: "fl \<Rightarrow> fl" where
  "fabs NaN = NaN"
| "fabs NInf = PInf"
| "fabs (Fin a) = Fin \<bar>a\<bar>"
| "fabs PInf = PInf"

text \<open>Comparisons: every comparison with \<open>NaN\<close> is false.\<close>

fun flt :: "fl \<Rightarrow> fl \<Rightarrow> bool" where
  "flt (Fin a) (Fin b) = (a < b)"
| "flt NaN _ = False"
| "flt _ NaN = False"
| "flt PInf _ = False"
| "flt _ NInf = False"
| "flt NInf _ = True"
| "flt _ PInf = True"

definition fgt :: "fl \<Rightarrow> fl \<Rightarrow> bool" where
  "fgt a b = flt b a"

text \<open>\<open>Series.clip(lo, hi)\<close>: \<open>NaN\<close> stays \<open>NaN\<close>.\<close>

fun fclip :: "real \<Rightarrow> real \<Rightarrow> fl \<Rightarrow> fl" where
  "fclip lo hi NaN = NaN"
| "fclip lo hi NInf = Fin (min lo hi)"
| "fclip lo hi (Fin a) = Fin (min (max a lo) hi)"
| "fclip lo hi PInf = Fin hi"

text \<open>\<open>pd.isna\<close> and the reductions of a column, all with pandas' default \<open>skipna=True\<close>.\<close>

fun isna :: "fl \<Rightarrow> bool" where
  "isna NaN = True"
| "isna _ = False"

definition dropna :: "fl list \<Rightarrow> fl list" where
  "dropna xs = filter (\<lambda>x. \<not> isna x) xs"

definition fsum :: "fl list \<Rightarrow> fl" where
  "fsum xs = foldl fadd (Fin 0) (dropna xs)"

definition fmean :: "fl list \<Rightarrow> fl" where
  "fmean xs =
     (let ys = dropna xs
      in if ys = [] then NaN else fdiv (foldl fadd (Fin 0) ys) (Fin (real (length ys))))"

definition fmax :: "fl list \<Rightarrow> fl" where
  "fmax xs =
     (case dropna xs of [] \<Rightarrow> NaN
      | y # ys \<Rightarrow> foldl (\<lambda>m x. if flt m x then x else m) y ys)"

subsection \<open>Rounding to float64\<close>

text \<open>
  IEEE 754 binary64, round to nearest, ties to even, for the normal range: a real
  \<open>x\<close> with \<open>2 ^ k \<le> \<bar>x\<bar> < 2 ^ (k + 1)\<close> is rounded to the nearest multiple of
  \<open>2 ^ (k - 52)\<close>. A float literal of the source denotes the rounding of its decimal
  value, so \<open>1.15\<close> is \<open>double_1_15\<close>; \<open>fround\<close> rounds a cell.
\<close>

definition round_half_even :: "real \<Rightarrow> int" where
  "round_half_even x =
     (let n = \<lfloor>x\<rfloor>; d = x - of_int n
      in if d < 1 / 2 then n else if 1 / 2 < d then n + 1 else if even n then n else n + 1)"

definition round_at :: "int \<Rightarrow> real \<Rightarrow> real" where
  "round_at e x = of_int (round_half_even (x / 2 powr of_int e)) * 2 powr of_int e"

definition round64 :: "real \<Rightarrow> real" where
  "round64 x = (if x = 0 then 0 else round_at (\<lfloor>log 2 \<bar>x\<bar>\<rfloor> - 52) x)"

definition double_1_15 :: real where
  "double_1_15 = round64 1.15"

fun fround :: "fl \<Rightarrow> fl" where
  "fround (Fin a) = Fin (round64 a)"
| "fround NaN = NaN"
| "fround NInf = NInf"
| "fround PInf = PInf"

section \<open>Frames\<close>

text \<open>
  A DataFrame is the set of its column labels and the list of its rows. The labels the
  analyzers read or write form the type \<open>col\<close>; the \<open>Furnace\<close> column holds names and
  is a field of its own. A cell of a column that is not in \<open>columns\<close> is never read.
\<close>

datatype col =
    Actual_Production_Qty | Cake_Production_Qty | Input_Qty_Ore_PLC | Input_Qty_Coke_PLC
  | Total_Cost_PLC | Power_Cost | MN_Recovery_PLC | MN_Recovery_Feeding
  | SI_Recovery_PLC | SI_Recovery_Feeding | Total_Breakdown_Mins
  | Grade_MN | Grade_SI | C_pct | Basicity | Specific_Power_Consumption
  | Load_Factor | Recovery_Liquid_Metal | Furnace_Power_Consumption | Aux_power_Consumption
  | Yield_Percentage | Ore_Efficiency | Coke_Efficiency | Cost_per_Ton | Power_Cost_per_Ton
  | MN_Recovery_Gap | SI_Recovery_Gap | Operational_Availability
  | Quality_Score | Performance_Score | Cost_per_Ton_Accurate

record row =
  furnace :: string
  cell :: "col \<Rightarrow> fl"

record frame =
  columns :: "col set"
  rows :: "row list"

text \<open>\<open>df[c]\<close> as a list, and the assignment \<open>df[c] = f(row)\<close> of a whole column.\<close>

definition column :: "frame \<Rightarrow> col \<Rightarrow> fl list" where
  "column df c = map (\<lambda>r. cell r c) (rows df)"

definition set_cell :: "col \<Rightarrow> (row \<Rightarrow> fl) \<Rightarrow> row \<Rightarrow> row" where
  "set_cell c f r = r\<lparr>cell := (cell r)(c := f r)\<rparr>"

definition set_col :: "frame \<Rightarrow> col \<Rightarrow> (row \<Rightarrow> fl) \<Rightarrow> frame" where
  "set_col df c f = \<lparr>columns = insert c (columns df), rows = map (set_cell c f) (rows df)\<rparr>"

section \<open>CompleteFurnaceAnalyzer: derived metrics\<close>

text \<open>
  \<open>complete_analyzer.py\<close>, \<open>_calculate_metrics\<close>, statement by statement. The quality and
  performance scores are accumulated in local variables of the source; here each
  accumulation step is a definition of its own.
\<close>

definition availability :: "fl \<Rightarrow> fl" where
  "availability bd = fmul (fdiv (fsub (Fin 1440) bd) (Fin 1440)) (Fin 100)"

definition sub_score :: "real \<Rightarrow> real \<Rightarrow> fl \<Rightarrow> fl" where
  "sub_score target slope x =
     fclip 0 100 (fsub (Fin 100) (fmul (fabs (fsub x (Fin target))) (Fin slope)))"

definition quality_score :: "col set \<Rightarrow> row \<Rightarrow> fl" where
  "quality_score cs r =
     (let q0 = Fin 0;
          q1 = (if Grade_MN \<in> cs
                then fadd q0 (fmul (sub_score 70 5 (cell r Grade_MN)) (Fin 0.4)) else q0);
          q2 = (if Grade_SI \<in> cs
                then fadd q1 (fmul (sub_score 17.5 10 (cell r Grade_SI)) (Fin 0.3)) else q1);
          q3 = (if C_pct \<in> cs
                then fadd q2 (fmul (sub_score 7 20 (cell r C_pct)) (Fin 0.2)) else q2);
          q4 = (if Basicity \<in> cs
                then fadd q3 (fmul (sub_score 1.35 40 (cell r Basicity)) (Fin 0.1)) else q3)
      in q4)"

text \<open>
  The cost and power sub-scores are relative to the mean of the whole column; they are
  added only if that mean is greater than zero.
\<close>

definition relative_score :: "fl \<Rightarrow> fl \<Rightarrow> fl" where
  "relative_score mean x =
     fclip 0 100 (fsub (Fin 100) (fmul (fsub (fdiv x mean) (Fin 1)) (Fin 50)))"

type_synonym score_acc = "(row \<Rightarrow> fl) \<times> real"

definition add_score :: "score_acc \<Rightarrow> (row \<Rightarrow> fl) \<Rightarrow> real \<Rightarrow> score_acc" where
  "add_score acc s w = (\<lambda>r. fadd (fst acc r) (fmul (s r) (Fin w)), snd acc + w)"

definition performance_acc :: "frame \<Rightarrow> score_acc" where
  "performance_acc df =
     (let a0 = (\<lambda>r. Fin 0, 0);
          a1 = (if Cost_per_Ton \<in> columns df
                then (let cost_mean = fmean (column df Cost_per_Ton)
                      in if fgt cost_mean (Fin 0)
                         then add_score a0 (\<lambda>r. relative_score cost_mean (cell r Cost_per_Ton)) 0.3
                         else a0)
                else a0);
          a2 = (if Specific_Power_Consumption \<in> columns df
                then (let power_mean = fmean (column df Specific_Power_Consumption)
                      in if fgt power_mean (Fin 0)
                         then add_score a1
                                (\<lambda>r. relative_score power_mean (cell r Specific_Power_Consumption)) 0.2
                         else a1)
                else a1);
          a3 = (if MN_Recovery_PLC \<in> columns df
                then add_score a2 (\<lambda>r. fclip 0 100 (cell r MN_Recovery_PLC)) 0.2 else a2);
          a4 = (if Yield_Percentage \<in> columns df
                then add_score a3 (\<lambda>r. fclip 0 100 (cell r Yield_Percentage)) 0.15 else a3);
          a5 = (if Quality_Score \<in> columns df
                then add_score a4 (\<lambda>r. cell r Quality_Score) 0.15 else a4)
      in a5)"

definition ratio_col :: "frame \<Rightarrow> col \<Rightarrow> col \<Rightarrow> col \<Rightarrow> frame" where
  "ratio_col df num den out =
     (if num \<in> columns df \<and> den \<in> columns df
      then set_col df out (\<lambda>r. fdiv (cell r num) (cell r den)) else df)"

definition gap_col :: "frame \<Rightarrow> col \<Rightarrow> col \<Rightarrow> col \<Rightarrow> frame" where
  "gap_col df plc feeding out =
     (if plc \<in> columns df \<and> feeding \<in> columns df
      then set_col df out (\<lambda>r. fsub (cell r plc) (cell r feeding)) else df)"

definition calculate_metrics :: "frame \<Rightarrow> frame" where
  "calculate_metrics df =
     (let d1 = (if Actual_Production_Qty \<in> columns df \<and> Cake_Production_Qty \<in> columns df
                then set_col df Yield_Percentage
                       (\<lambda>r. fmul (fdiv (cell r Actual_Production_Qty) (cell r Cake_Production_Qty))
                              (Fin 100))
                else df);
          d2 = ratio_col d1 Actual_Production_Qty Input_Qty_Ore_PLC Ore_Efficiency;
          d3 = ratio_col d2 Actual_Production_Qty Input_Qty_Coke_PLC Coke_Efficiency;
          d4 = ratio_col d3 Total_Cost_PLC Actual_Production_Qty Cost_per_Ton;
          d5 = ratio_col d4 Power_Cost Actual_Production_Qty Power_Cost_per_Ton;
          d6 = gap_col d5 MN_Recovery_PLC MN_Recovery_Feeding MN_Recovery_Gap;
          d7 = gap_col d6 SI_Recovery_PLC SI_Recovery_Feeding SI_Recovery_Gap;
          d8 = (if Total_Breakdown_Mins \<in> columns d7
                then set_col d7 Operational_Availability (\<lambda>r. availability (cell r Total_Breakdown_Mins))
                else d7);
          d9 = set_col d8 Quality_Score (quality_score (columns d8));
          acc = performance_acc d9;
          d10 = (if 0 < snd acc
                 then set_col d9 Performance_Score (\<lambda>r. fdiv (fst acc r) (Fin (snd acc)))
                 else d9)
      in d10)"

text \<open>
  Exceptions of the modelled code: a missing column label (\<open>KeyError\<close>), a position that
  is not an integer (\<open>TypeError\<close>, from \<open>iloc\<close> of the \<open>NaN\<close> that \<open>idxmin\<close> returns for
  a column without data, or from comparing a string with a number).
\<close>

datatype error = KeyError | TypeError

section \<open>CompleteFurnaceAnalyzer: analysis by furnace\<close>

text \<open>
  \<open>Series.unique()\<close> keeps the order of first appearance. \<open>df[df['Furnace'] == f]\<close>
  keeps the rows of one furnace.
\<close>

definition unique :: "string list \<Rightarrow> string list" where
  "unique xs = rev (remdups (rev xs))"

definition furnace_data :: "frame \<Rightarrow> string \<Rightarrow> frame" where
  "furnace_data df f = \<lparr>columns = columns df, rows = filter (\<lambda>r. furnace r = f) (rows df)\<rparr>"

text \<open>
  The entry of \<open>furnace_analysis\<close> for one furnace, with the keys the insight rules read
  (the cost breakdown, the grade production and the date range are left out: they feed
  only the texts of a finding). A mean written \<open>... if c in columns else 0\<close> is
  \<open>mean_or_0\<close>; the other keys index their column directly and raise \<open>KeyError\<close> when it
  is missing, which is the check \<open>required_columns\<close>.
\<close>

record analysis =
  total_production :: fl
  avg_daily_production :: fl
  total_cost :: fl
  avg_cost_per_ton :: fl
  avg_power_consumption :: fl
  avg_mn_recovery :: fl
  avg_si_recovery :: fl
  avg_mn_recovery_gap :: fl
  avg_grade_mn :: fl
  avg_grade_si :: fl
  avg_carbon :: fl
  avg_basicity :: fl
  avg_quality_score :: fl
  avg_breakdown_mins :: fl
  operational_availability :: fl
  performance_score :: fl

definition mean_or_0 :: "frame \<Rightarrow> col \<Rightarrow> fl" where
  "mean_or_0 fd c = (if c \<in> columns fd then fmean (column fd c) else Fin 0)"

definition required_columns :: "col set" where
  "required_columns =
     {Actual_Production_Qty, Total_Cost_PLC, Specific_Power_Consumption, MN_Recovery_PLC,
      Grade_MN, Grade_SI, C_pct, Basicity, Total_Breakdown_Mins}"

definition analyze_furnace :: "frame \<Rightarrow> analysis" where
  "analyze_furnace fd =
     \<lparr>total_production = fsum (column fd Actual_Production_Qty),
      avg_daily_production = fmean (column fd Actual_Production_Qty),
      total_cost = fsum (column fd Total_Cost_PLC),
      avg_cost_per_ton = mean_or_0 fd Cost_per_Ton,
      avg_power_consumption = fmean (column fd Specific_Power_Consumption),
      avg_mn_recovery = fmean (column fd MN_Recovery_PLC),
      avg_si_recovery = mean_or_0 fd SI_Recovery_PLC,
      avg_mn_recovery_gap = mean_or_0 fd MN_Recovery_Gap,
      avg_grade_mn = fmean (column fd Grade_MN),
      avg_grade_si = fmean (column fd Grade_SI),
      avg_carbon = fmean (column fd C_pct),
      avg_basicity = fmean (column fd Basicity),
      avg_quality_score = mean_or_0 fd Quality_Score,
      avg_breakdown_mins = fmean (column fd Total_Breakdown_Mins),
      operational_availability = mean_or_0 fd Operational_Availability,
      performance_score = mean_or_0 fd Performance_Score\<rparr>"

text \<open>
  \<open>_analyze_by_furnace\<close> on the processed frame: one entry per furnace, in the order of
  \<open>unique\<close>; the dictionary is an association list with distinct keys.
\<close>

definition analyze_by_furnace :: "frame \<Rightarrow> error + (string \<times> analysis) list" where
  "analyze_by_furnace df =
     (let furnaces = unique (map furnace (rows df))
      in if furnaces \<noteq> [] \<and> \<not> required_columns \<subseteq> columns df then Inl KeyError
         else Inr (map (\<lambda>f. (f, analyze_furnace (furnace_data df f))) furnaces))"

section \<open>AccurateFurnaceAnalyzer\<close>

text \<open>
  \<open>accurate_analyzer.py\<close>. The assignment through \<open>df.loc[mask, c] = ...\<close> creates the
  column \<open>c\<close> and leaves it \<open>NaN\<close> outside the mask.
\<close>

definition masked_ratio :: "col \<Rightarrow> col \<Rightarrow> col \<Rightarrow> row \<Rightarrow> fl" where
  "masked_ratio mask_col num den r =
     (if fgt (cell r mask_col) (Fin 0) then fdiv (cell r num) (cell r den) else NaN)"

definition accurate_cost_per_ton :: "frame \<Rightarrow> frame" where
  "accurate_cost_per_ton df =
     (if Total_Cost_PLC \<in> columns df \<and> Actual_Production_Qty \<in> columns df
      then set_col df Cost_per_Ton_Accurate
             (masked_ratio Actual_Production_Qty Total_Cost_PLC Actual_Production_Qty)
      else df)"

text \<open>
  \<open>_analyze_by_furnace\<close> of the accurate analyzer, key \<open>avg_cost_per_ton\<close>: the mean of
  the cost per ton over the furnace's rows with a positive production.
\<close>

definition accurate_avg_cost_per_ton :: "frame \<Rightarrow> string \<Rightarrow> fl" where
  "accurate_avg_cost_per_ton df f =
     (let fd = furnace_data df f
      in if Cost_per_Ton_Accurate \<in> columns fd
         then fmean (map (\<lambda>r. cell r Cost_per_Ton_Accurate)
                      (filter (\<lambda>r. fgt (cell r Actual_Production_Qty) (Fin 0)) (rows fd)))
         else Fin 0)"

section \<open>CapacityCalculator\<close>

text \<open>
  \<open>capacity_calculator.py\<close>, \<open>_calculate_all_metrics\<close>, for one furnace with data: the
  cost per ton of the furnace is the sum of the costs over the sum of the production,
  and the availability is computed from the mean of the breakdown minutes.
\<close>

definition avg_cost_mt :: "frame \<Rightarrow> fl" where
  "avg_cost_mt fd =
     fdiv (fsum (column fd Total_Cost_PLC)) (fsum (column fd Actual_Production_Qty))"

definition cost_vs_target :: "frame \<Rightarrow> fl \<Rightarrow> fl" where
  "cost_vs_target fd target_cost_mt =
     fmul (fsub (fdiv (avg_cost_mt fd) target_cost_mt) (Fin 1)) (Fin 100)"

definition capacity_operational_availability :: "frame \<Rightarrow> fl" where
  "capacity_operational_availability fd = availability (fmean (column fd Total_Breakdown_Mins))"

section \<open>FixedFurnaceAnalyzer: unit corrections\<close>

text \<open>
  \<open>fixed_analyzer.py\<close>, \<open>_clean_and_fix_data\<close>, the block of unit corrections, applied to
  the frame of numeric columns. \<open>scale_col\<close> is \<open>df[c] = df[c] * k\<close>.
\<close>

definition scale_col :: "frame \<Rightarrow> col \<Rightarrow> real \<Rightarrow> frame" where
  "scale_col df c k = set_col df c (\<lambda>r. fmul (cell r c) (Fin k))"

text \<open>
  Corrections 1 to 4 (the recovery columns) multiply by 100 whenever the column is
  there. Corrections 5 and 6 (load factor, recovery of liquid metal) multiply by 100
  when the largest value of the column is below a threshold. Correction 7 turns the
  power columns from MW to kWh.
\<close>

definition rescale_always :: "col \<Rightarrow> frame \<Rightarrow> frame" where
  "rescale_always c df = (if c \<in> columns df then scale_col df c 100 else df)"

definition rescale_if_max_below :: "col \<Rightarrow> real \<Rightarrow> frame \<Rightarrow> frame" where
  "rescale_if_max_below c threshold df =
     (if c \<in> columns df
      then (if flt (fmax (column df c)) (Fin threshold) then scale_col df c 100 else df)
      else df)"

definition correct_power :: "frame \<Rightarrow> frame" where
  "correct_power df =
     (if Furnace_Power_Consumption \<in> columns df
      then (if flt (fmax (column df Furnace_Power_Consumption)) (Fin 1000)
            then (if flt (fmean (column df Furnace_Power_Consumption)) (Fin 100)
                  then (let e = scale_col df Furnace_Power_Consumption 1000
                        in if Aux_power_Consumption \<in> columns e
                           then scale_col e Aux_power_Consumption 1000 else e)
                  else df)
            else df)
      else df)"

definition unit_corrections :: "frame \<Rightarrow> frame" where
  "unit_corrections df =
     (let d1 = rescale_always MN_Recovery_PLC df;
          d2 = rescale_always SI_Recovery_PLC d1;
          d3 = rescale_always MN_Recovery_Feeding d2;
          d4 = rescale_always SI_Recovery_Feeding d3;
          d5 = rescale_if_max_below Load_Factor 10 d4;
          d6 = rescale_if_max_below Recovery_Liquid_Metal 1 d5;
          d7 = correct_power d6
      in d7)"

section \<open>Findings\<close>

text \<open>
  An insight is a dictionary. The keys \<open>category\<close>, \<open>severity\<close>, \<open>furnace\<close> (optional)
  and \<open>title\<close> are modelled as they are. The description, impact, recommendation and
  data entries are formatted texts: of those, the model keeps the metric value that is
  formatted into them (\<open>metric_value\<close>) and, for a benchmarking insight, the names of
  the two furnaces.
\<close>

record insight =
  category :: string
  severity :: string
  insight_furnace :: "string option"
  title :: string
  metric_value :: fl
  best_performer :: "string option"
  worst_performer :: "string option"

definition furnace_insight :: "string \<Rightarrow> string \<Rightarrow> string \<Rightarrow> string \<Rightarrow> fl \<Rightarrow> insight" where
  "furnace_insight cat sev furnace_id title_prefix v =
     \<lparr>category = cat, severity = sev, insight_furnace = Some furnace_id,
      title = title_prefix @ furnace_id, metric_value = v,
      best_performer = None, worst_performer = None\<rparr>"

section \<open>ComprehensiveInsightsEngine\<close>

text \<open>
  \<open>comprehensive_insights.py\<close>. The targets are those of the analyzer (every key is
  set by \<open>_calculate_targets\<close>, so the defaults of \<open>targets.get\<close> are never used); each
  rule loops over \<open>furnace_analysis\<close> and appends to \<open>self.insights\<close>.
\<close>

record targets =
  Cost_per_Ton_target :: fl
  MN_Recovery_PLC_target :: fl
  SI_Recovery_PLC_target :: fl

fun generate_cost_insights :: "targets \<Rightarrow> (string \<times> analysis) list \<Rightarrow> insight list" where
  "generate_cost_insights t [] = []"
| "generate_cost_insights t ((furnace_id, a) # rest) =
     (let current_cost = avg_cost_per_ton a;
          target_cost = Cost_per_Ton_target t
      in (if fgt current_cost (fround (fmul target_cost (Fin double_1_15)))
          then [furnace_insight ''cost'' ''high'' furnace_id ''High Production Cost - '' current_cost]
          else [])
         @ generate_cost_insights t rest)"


text \<open>The table \<open>quality_params\<close>: name, key of the analysis, optimal band, critical band.\<close>

record quality_param =
  param_name :: string
  analysis_key :: "analysis \<Rightarrow> fl"
  optimal :: "real \<times> real"
  critical :: "real \<times> real"

definition quality_params :: "quality_param list" where
  "quality_params =
     [\<lparr>param_name = ''Grade MN'', analysis_key = avg_grade_mn,
       optimal = (68, 72), critical = (65, 75)\<rparr>,
      \<lparr>param_name = ''Grade SI'', analysis_key = avg_grade_si,
       optimal = (16, 18), critical = (15, 20)\<rparr>,
      \<lparr>param_name = ''C%'', analysis_key = avg_carbon,
       optimal = (6.5, 7.5), critical = (6, 8)\<rparr>,
      \<lparr>param_name = ''Basicity'', analysis_key = avg_basicity,
       optimal = (1.3, 1.4), critical = (1.2, 1.5)\<rparr>]"

definition outside :: "real \<times> real \<Rightarrow> fl \<Rightarrow> bool" where
  "outside band v = (flt v (Fin (fst band)) \<or> fgt v (Fin (snd band)))"

fun param_insights :: "string \<Rightarrow> analysis \<Rightarrow> quality_param list \<Rightarrow> insight list" where
  "param_insights furnace_id a [] = []"
| "param_insights furnace_id a (p # ps) =
     (let current_value = analysis_key p a
      in (if fgt current_value (Fin 0)
          then (if outside (optimal p) current_value
                then [furnace_insight ''quality''
                        (if outside (critical p) current_value then ''high'' else ''medium'')
                        furnace_id (param_name p @ '' Deviation - '') current_value]
                else [])
          else [])
         @ param_insights furnace_id a ps)"

fun generate_quality_insights :: "(string \<times> analysis) list \<Rightarrow> insight list" where
  "generate_quality_insights [] = []"
| "generate_quality_insights ((furnace_id, a) # rest) =
     param_insights furnace_id a quality_params
     @ (if flt (avg_quality_score a) (Fin 70)
        then [furnace_insight ''quality'' ''medium'' furnace_id ''Low Overall Quality Score - ''
                (avg_quality_score a)]
        else [])
     @ generate_quality_insights rest"

text \<open>
  \<open>Series.idxmin()\<close> and \<open>idxmax()\<close>: the position of the first smallest (largest) value
  that is not \<open>NaN\<close>; \<open>None\<close> when the column has no value, where the lookup by position
  that follows raises.
\<close>

fun idxmin :: "fl list \<Rightarrow> nat option" where
  "idxmin [] = None"
| "idxmin (x # xs) =
     (case idxmin xs of
        None \<Rightarrow> if isna x then None else Some 0
      | Some j \<Rightarrow> if isna x \<or> flt (xs ! j) x then Some (Suc j) else Some 0)"

fun idxmax :: "fl list \<Rightarrow> nat option" where
  "idxmax [] = None"
| "idxmax (x # xs) =
     (case idxmax xs of
        None \<Rightarrow> if isna x then None else Some 0
      | Some j \<Rightarrow> if isna x \<or> fgt (xs ! j) x then Some (Suc j) else Some 0)"

text \<open>
  \<open>_generate_comparative_insights\<close> reads the furnace summary, which has one row per
  entry of \<open>furnace_analysis\<close> and copies the five compared metrics from it.
\<close>

record comparison_metric =
  metric_col :: "analysis \<Rightarrow> fl"
  display_name :: string
  lower_is_better :: bool


definition gap_pct :: "fl \<Rightarrow> fl \<Rightarrow> fl" where
  "gap_pct best_value worst_value =
     fmul (fabs (fdiv (fsub worst_value best_value) best_value)) (Fin 100)"

definition best_index :: "bool \<Rightarrow> fl list \<Rightarrow> nat option" where
  "best_index lower vals = (if lower then idxmin vals else idxmax vals)"

definition worst_index :: "bool \<Rightarrow> fl list \<Rightarrow> nat option" where
  "worst_index lower vals = (if lower then idxmax vals else idxmin vals)"

definition metric_values :: "(string \<times> analysis) list \<Rightarrow> comparison_metric \<Rightarrow> fl list" where
  "metric_values summary m = map (\<lambda>(f, a). metric_col m a) summary"

definition gap_insight :: "(string \<times> analysis) list \<Rightarrow> comparison_metric \<Rightarrow> nat \<Rightarrow> nat \<Rightarrow> insight" where
  "gap_insight summary m b w =
     \<lparr>category = ''comparative'', severity = ''high'', insight_furnace = None,
      title = display_name m @ '' Performance Gap'',
      metric_value = gap_pct (metric_values summary m ! b) (metric_values summary m ! w),
      best_performer = Some (fst (summary ! b)),
      worst_performer = Some (fst (summary ! w))\<rparr>"

definition compare_metric :: "(string \<times> analysis) list \<Rightarrow> comparison_metric \<Rightarrow> error + insight list" where
  "compare_metric summary m =
     (let vals = metric_values summary m;
          best_idx = best_index (lower_is_better m) vals;
          worst_idx = worst_index (lower_is_better m) vals
      in case (best_idx, worst_idx) of
           (Some b, Some w) \<Rightarrow>
             (let best_value = vals ! b; worst_value = vals ! w
              in if fgt best_value (Fin 0)
                 then (if fgt (gap_pct best_value worst_value) (Fin 20)
                       then Inr [gap_insight summary m b w]
                       else Inr [])
                 else Inr [])
         | _ \<Rightarrow> Inl TypeError)"



section \<open>ProductionInsightsGenerator\<close>

text \<open>
  \<open>insights_final.py\<close>. The rules read the furnace summary of the processor (one row
  per furnace, the means rounded there) and the dictionary \<open>self.targets\<close>. Of
  \<open>_generate_cost_insights\<close> the loop over the furnaces is modelled; the cost-driver
  insight that follows it has no furnace and medium severity.
\<close>

record summary_row =
  Furnace :: string
  cost_per_ton_mean :: fl
  MN_Recovery_PLC_mean :: fl
  SI_Recovery_PLC_mean :: fl

definition final_targets :: "(string \<times> real) list" where
  "final_targets =
     [(''cost_per_ton'', 50000), (''Specific Power Consumption'', 2500),
      (''MN Recovery PLC'', 80), (''SI Recovery PLC'', 45), (''yield_percentage'', 95),
      (''ore_efficiency'', 0.55), (''Load Factor'', 85), (''Power Factor'', 0.95)]"

fun final_cost_loop :: "(string \<times> real) list \<Rightarrow> summary_row list \<Rightarrow> error + insight list" where
  "final_cost_loop tg [] = Inr []"
| "final_cost_loop tg (furnace_row # rest) =
     (let avg_cost = cost_per_ton_mean furnace_row
      in if isna avg_cost then final_cost_loop tg rest
         else (case map_of tg ''cost_per_ton'' of
                 None \<Rightarrow> Inl KeyError
               | Some target_cost \<Rightarrow>
                   (case final_cost_loop tg rest of
                      Inl e \<Rightarrow> Inl e
                    | Inr later \<Rightarrow>
                        Inr ((if fgt avg_cost (Fin (round64 (target_cost * double_1_15)))
                              then [furnace_insight ''cost'' ''high'' (Furnace furnace_row)
                                      ''High Operating Cost - '' avg_cost]
                              else [])
                             @ later))))"

definition final_cost_insights :: "(string \<times> real) list \<Rightarrow> bool \<Rightarrow> summary_row list \<Rightarrow> error + insight list" where
  "final_cost_insights tg has_cost_per_ton furnace_summary =
     (if \<not> has_cost_per_ton then Inr [] else final_cost_loop tg furnace_summary)"

text \<open>\<open>s.replace(' PLC', '')\<close>: every occurrence, from the left.\<close>

fun remove_PLC :: "string \<Rightarrow> string" where
  "remove_PLC [] = []"
| "remove_PLC (c # cs) =
     (if take 4 (c # cs) = '' PLC'' then remove_PLC (drop 3 cs) else c # remove_PLC cs)"

fun final_recovery_loop :: "string \<Rightarrow> (summary_row \<Rightarrow> fl) \<Rightarrow> real \<Rightarrow> summary_row list \<Rightarrow> insight list" where
  "final_recovery_loop material mean_of target_value [] = []"
| "final_recovery_loop material mean_of target_value (furnace_row # rest) =
     (let avg_recovery = mean_of furnace_row
      in (if isna avg_recovery then []
          else if flt avg_recovery (Fin (target_value * 0.9))
          then [furnace_insight ''recovery'' ''high'' (Furnace furnace_row)
                  (''Low '' @ material @ '' Recovery - '') avg_recovery]
          else [])
         @ final_recovery_loop material mean_of target_value rest)"

definition final_recovery_metric ::
  "(string \<times> real) list \<Rightarrow> bool \<Rightarrow> summary_row list \<Rightarrow> string \<Rightarrow> string \<Rightarrow> (summary_row \<Rightarrow> fl) \<Rightarrow> insight list" where
  "final_recovery_metric tg in_columns furnace_summary recovery_metric material mean_of =
     (if \<not> in_columns \<or> furnace_summary = [] then []
      else (case map_of tg (remove_PLC recovery_metric) of
              None \<Rightarrow> []
            | Some target_value \<Rightarrow>
                if target_value = 0 then []
                else final_recovery_loop material mean_of target_value furnace_summary))"

definition final_recovery_insights ::
  "(string \<times> real) list \<Rightarrow> bool \<Rightarrow> bool \<Rightarrow> summary_row list \<Rightarrow> insight list" where
  "final_recovery_insights tg has_mn has_si furnace_summary =
     final_recovery_metric tg has_mn furnace_summary ''MN Recovery PLC'' ''Manganese''
       MN_Recovery_PLC_mean
     @ final_recovery_metric tg has_si furnace_summary ''SI Recovery PLC'' ''Silicon''
         SI_Recovery_PLC_mean"

section \<open>InsightsEngine: comparison of the furnaces\<close>





section \<open>AdvancedInsightsEngine: categories\<close>

text \<open>
  \<open>advanced_insights.py\<close>, \<open>_categorize_insights\<close>, as a function of \<open>self.insights\<close>.
  Here an insight may carry the text \<open>financial_impact\<close>, which the final sort reads.
  The labels and the title of the synthetic insight are written without their leading
  pictograph.
\<close>

record adv_insight = insight +
  financial_impact :: "string option"

definition issue_key :: "adv_insight \<Rightarrow> string" where
  "issue_key i = (case insight_furnace i of None \<Rightarrow> ''General'' | Some f \<Rightarrow> f)"

text \<open>The loop that fills \<open>furnace_issues\<close>: a dictionary in insertion order.\<close>

fun add_issue :: "(string \<times> adv_insight list) list \<Rightarrow> adv_insight \<Rightarrow> (string \<times> adv_insight list) list" where
  "add_issue [] i = [(issue_key i, [i])]"
| "add_issue ((f, issues) # rest) i =
     (if f = issue_key i then (f, issues @ [i]) # rest else (f, issues) # add_issue rest i)"

definition furnace_issues :: "adv_insight list \<Rightarrow> (string \<times> adv_insight list) list" where
  "furnace_issues insights = foldl add_issue [] (filter (\<lambda>i. severity i = ''high'') insights)"

definition critical_insight :: "string \<Rightarrow> adv_insight" where
  "critical_insight f =
     \<lparr>category = ''critical'', severity = ''high'', insight_furnace = Some f,
      title = ''Multiple Critical Issues - '' @ f, metric_value = NaN,
      best_performer = None, worst_performer = None, financial_impact = None\<rparr>"

fun critical_issues :: "(string \<times> adv_insight list) list \<Rightarrow> adv_insight list" where
  "critical_issues [] = []"
| "critical_issues ((f, issues) # rest) =
     (if 2 \<le> length issues \<and> f \<noteq> ''General'' then [critical_insight f] else [])
     @ critical_issues rest"

definition category_labels :: "string list" where
  "category_labels =
     [''Critical Issues'', ''Cost Optimization'', ''Power Efficiency'', ''Material Recovery'',
      ''Quality Control'', ''Operations'', ''Performance Benchmarking'']"

definition bucket_of :: "adv_insight \<Rightarrow> string" where
  "bucket_of i =
     (if severity i = ''high'' \<and> category i \<noteq> ''critical'' then ''Critical Issues''
      else if category i = ''cost'' then ''Cost Optimization''
      else if category i = ''power'' then ''Power Efficiency''
      else if category i = ''recovery'' then ''Material Recovery''
      else if category i = ''quality'' then ''Quality Control''
      else if category i = ''capacity'' \<or> category i = ''operations'' then ''Operations''
      else if category i = ''comparative'' then ''Performance Benchmarking''
      else ''Operations'')"

text \<open>
  The sort key is the pair of the severity rank and the text \<open>financial_impact\<close>, or the
  number 0 where the insight has none; the order is descending and stable. Python
  compares two such pairs by their ranks and, when the ranks are equal, by their second
  components: a text against the number 0 raises \<open>TypeError\<close>. A sort compares the
  neighbours of its result, so it raises exactly when the list holds two insights of
  one rank, one with the text and one without.
\<close>

definition severity_order :: "adv_insight \<Rightarrow> nat" where
  "severity_order i =
     (if severity i = ''high'' then 3 else if severity i = ''medium'' then 2
      else if severity i = ''low'' then 1 else 0)"

definition mixed_keys :: "adv_insight list \<Rightarrow> bool" where
  "mixed_keys xs =
     list_ex (\<lambda>x. list_ex (\<lambda>y. severity_order x = severity_order y
                                \<and> financial_impact x \<noteq> None \<and> financial_impact y = None) xs) xs"

fun str_lt :: "string \<Rightarrow> string \<Rightarrow> bool" where
  "str_lt [] [] = False"
| "str_lt [] (b # bs) = True"
| "str_lt (a # as) [] = False"
| "str_lt (a # as) (b # bs) = ((of_char a :: nat) < of_char b \<or> (a = b \<and> str_lt as bs))"

definition key_lt :: "adv_insight \<Rightarrow> adv_insight \<Rightarrow> bool" where
  "key_lt x y =
     (severity_order x < severity_order y
      \<or> (severity_order x = severity_order y
          \<and> (case (financial_impact x, financial_impact y) of
                (Some s, Some t) \<Rightarrow> str_lt s t
              | _ \<Rightarrow> False)))"

fun insert_desc :: "adv_insight \<Rightarrow> adv_insight list \<Rightarrow> adv_insight list" where
  "insert_desc x [] = [x]"
| "insert_desc x (y # ys) = (if key_lt x y then y # insert_desc x ys else x # y # ys)"

definition sort_desc :: "adv_insight list \<Rightarrow> adv_insight list" where
  "sort_desc xs = foldr insert_desc xs []"

definition categorize_insights ::
  "adv_insight list \<Rightarrow> error + adv_insight list \<times> (string \<times> adv_insight list) list" where
  "categorize_insights insights =
     (let all_insights = insights @ critical_issues (furnace_issues insights);
          categories = map (\<lambda>l. (l, filter (\<lambda>i. bucket_of i = l) all_insights)) category_labels
      in if list_ex (\<lambda>(l, b). mixed_keys b) categories then Inl TypeError
         else Inr (all_insights, map (\<lambda>(l, b). (l, sort_desc b)) categories))"

text \<open>A row without data: every cell missing.\<close>

definition blank :: "col \<Rightarrow> fl" where
  "blank c = NaN"

text \<open>An analysis entry without data.\<close>

definition blank_analysis :: analysis where
  "blank_analysis =
     \<lparr>total_production = NaN, avg_daily_production = NaN, total_cost = NaN,
      avg_cost_per_ton = NaN, avg_power_consumption = NaN, avg_mn_recovery = NaN,
      avg_si_recovery = NaN, avg_mn_recovery_gap = NaN, avg_grade_mn = NaN,
      avg_grade_si = NaN, avg_carbon = NaN, avg_basicity = NaN, avg_quality_score = NaN,
      avg_breakdown_mins = NaN, operational_availability = NaN, performance_score = NaN\<rparr>"

text \<open>
  The two ways of averaging a rate over the records of a group, in the words of the
  specification: the mean of the per-record ratios and the ratio of the sums. \<open>fin\<close>
  reads a finite cell.
\<close>

fun fin :: "fl \<Rightarrow> real" where
  "fin (Fin a) = a"
| "fin _ = 0"

definition mean_of_ratios :: "row list \<Rightarrow> real" where
  "mean_of_ratios rs =
     (\<Sum>r\<leftarrow>rs. fin (cell r Total_Cost_PLC) / fin (cell r Actual_Production_Qty))
     / real (length rs)"

definition ratio_of_sums :: "row list \<Rightarrow> real" where
  "ratio_of_sums rs =
     (\<Sum>r\<leftarrow>rs. fin (cell r Total_Cost_PLC)) / (\<Sum>r\<leftarrow>rs. fin (cell r Actual_Production_Qty))"

text \<open>
  A frame for the examples: furnace F1 on two days, with the cost 100 on each and the
  production 1 and 2, and furnace F2 on one day; the other required columns are
  present and hold no data.
\<close>

definition two_day_frame :: frame where
  "two_day_frame =
     \<lparr>columns = required_columns,
      rows = [\<lparr>furnace = ''F1'',
               cell = blank(Total_Cost_PLC := Fin 100, Actual_Production_Qty := Fin 1)\<rparr>,
              \<lparr>furnace = ''F2'',
               cell = blank(Total_Cost_PLC := Fin 90, Actual_Production_Qty := Fin 3)\<rparr>,
              \<lparr>furnace = ''F1'',
               cell = blank(Total_Cost_PLC := Fin 100, Actual_Production_Qty := Fin 2)\<rparr>]\<rparr>"

text \<open>A frame with one record of furnace F1: a cost of 100 and no production.\<close>

definition zero_production_frame :: frame where
  "zero_production_frame =
     \<lparr>columns = required_columns,
      rows = [\<lparr>furnace = ''F1'',
               cell = blank(Total_Cost_PLC := Fin 100, Actual_Production_Qty := Fin 0)\<rparr>]\<rparr>"


text \<open>A high-severity insight of a furnace, with or without the text \<open>financial_impact\<close>.\<close>

definition high_issue :: "string \<Rightarrow> string \<Rightarrow> string option \<Rightarrow> adv_insight" where
  "high_issue cat f fi =
     \<lparr>category = cat, severity = ''high'', insight_furnace = Some f,
      title = cat @ '' - '' @ f, metric_value = NaN,
      best_performer = None, worst_performer = None, financial_impact = fi\<rparr>"

(*DEFS-END*)

section \<open>Frames: basic facts\<close>

lemma length_rows_set_col: "length (rows (set_col df c f)) = length (rows df)"
  by (simp add: set_col_def)

lemma cell_set_col:
  "i < length (rows df) \<Longrightarrow>
   cell (rows (set_col df c f) ! i) c' = (if c' = c then f (rows df ! i) else cell (rows df ! i) c')"
  by (simp add: set_col_def set_cell_def)

lemma columns_set_col: "x \<in> columns (set_col df c f) \<longleftrightarrow> x = c \<or> x \<in> columns df"
  by (simp add: set_col_def)

lemma length_rows_if_set_col:
  "length (rows (if b then set_col df c f else df)) = length (rows df)"
  by (simp add: length_rows_set_col)

lemma cell_if_set_col:
  "i < length (rows df) \<Longrightarrow>
   cell (rows (if b then set_col df c f else df) ! i) c' =
     (if b \<and> c' = c then f (rows df ! i) else cell (rows df ! i) c')"
  by (simp add: cell_set_col)

lemma columns_if_set_col:
  "x \<in> columns (if b then set_col df c f else df) \<longleftrightarrow> (b \<and> x = c) \<or> x \<in> columns df"
  by (simp add: columns_set_col)

lemmas frame_simps = length_rows_set_col cell_set_col columns_set_col
  length_rows_if_set_col cell_if_set_col columns_if_set_col

lemma length_rows_calculate_metrics: "length (rows (calculate_metrics df)) = length (rows df)"
  by (simp add: calculate_metrics_def Let_def ratio_col_def gap_col_def frame_simps)

section \<open>Operational availability\<close>

lemma availability_cell:
  assumes "Total_Breakdown_Mins \<in> columns df" and "i < length (rows df)"
  shows "cell (rows (calculate_metrics df) ! i) Operational_Availability
         = availability (cell (rows df ! i) Total_Breakdown_Mins)"
  using assms
  by (simp add: calculate_metrics_def Let_def ratio_col_def gap_col_def frame_simps)

lemma availability_Fin: "availability (Fin b) = Fin ((1440 - b) / 1440 * 100)"
  by (simp add: availability_def fsub_def)

text \<open>
  C6 (as stated, refuted). The claim has the availability clamped to 0 when the breakdown
  minutes exceed 1440. No analyzer clamps: for 2000 breakdown minutes
  \<open>_calculate_metrics\<close> stores a negative availability.
\<close>

theorem C6_counterexample:
  "flt (cell (rows (calculate_metrics
          \<lparr>columns = {Total_Breakdown_Mins},
           rows = [\<lparr>furnace = ''F1'', cell = blank(Total_Breakdown_Mins := Fin 2000)\<rparr>]\<rparr>) ! 0)
        Operational_Availability) (Fin 0)"
proof -
  have "cell (rows (calculate_metrics
          \<lparr>columns = {Total_Breakdown_Mins},
           rows = [\<lparr>furnace = ''F1'', cell = blank(Total_Breakdown_Mins := Fin 2000)\<rparr>]\<rparr>) ! 0)
        Operational_Availability = availability (Fin 2000)"
    by (subst availability_cell) simp_all
  then show ?thesis
    by (simp add: availability_Fin)
qed

text \<open>
  C6 (amended). For every record with a numeric breakdown total \<open>b\<close>, the stored
  operational availability is \<open>(1440 - b) / 1440 * 100\<close>, with no clamping: it lies in
  \<open>[0, 100]\<close> when \<open>b\<close> is in \<open>[0, 1440]\<close>, and it is negative when \<open>b\<close> exceeds 1440.
\<close>

theorem C6_availability_unclamped:
  assumes "Total_Breakdown_Mins \<in> columns df" and "i < length (rows df)"
    and "cell (rows df ! i) Total_Breakdown_Mins = Fin b"
  shows "\<exists>a. cell (rows (calculate_metrics df) ! i) Operational_Availability = Fin a
             \<and> a = (1440 - b) / 1440 * 100
             \<and> (0 \<le> b \<and> b \<le> 1440 \<longrightarrow> 0 \<le> a \<and> a \<le> 100)
             \<and> (1440 < b \<longrightarrow> a < 0)"
proof -
  have "cell (rows (calculate_metrics df) ! i) Operational_Availability
        = Fin ((1440 - b) / 1440 * 100)"
    using assms by (simp add: availability_cell availability_Fin)
  moreover have "0 \<le> b \<and> b \<le> 1440 \<longrightarrow>
      0 \<le> (1440 - b) / 1440 * 100 \<and> (1440 - b) / 1440 * 100 \<le> 100"
    by (simp add: field_simps)
  moreover have "1440 < b \<longrightarrow> (1440 - b) / 1440 * 100 < 0"
    by (simp add: field_simps)
  ultimately show ?thesis
    by blast
qed

theorem C6_availability_unclamped_witness:
  "cell (rows (calculate_metrics
          \<lparr>columns = {Total_Breakdown_Mins},
           rows = [\<lparr>furnace = ''F1'', cell = blank(Total_Breakdown_Mins := Fin 720)\<rparr>]\<rparr>) ! 0)
        Operational_Availability = Fin 50"
  using C6_availability_unclamped
    [of "\<lparr>columns = {Total_Breakdown_Mins},
           rows = [\<lparr>furnace = ''F1'', cell = blank(Total_Breakdown_Mins := Fin 720)\<rparr>]\<rparr>" 0 720]
  by simp

section \<open>Cost rule\<close>

lemma in_generate_cost_insights:
  "i \<in> set (generate_cost_insights t fa) \<longleftrightarrow>
     (\<exists>f a. (f, a) \<in> set fa
        \<and> fgt (avg_cost_per_ton a) (fround (fmul (Cost_per_Ton_target t) (Fin double_1_15)))
        \<and> i = furnace_insight ''cost'' ''high'' f ''High Production Cost - '' (avg_cost_per_ton a))"
proof (induction fa)
  case Nil
  then show ?case by simp
next
  case (Cons p fa)
  obtain f a where p: "p = (f, a)" by (cases p)
  show ?case
    unfolding p using Cons.IH by (simp add: Let_def) blast
qed


lemma furnace_insight_sel [simp]:
  "category (furnace_insight c s f t v) = c"
  "severity (furnace_insight c s f t v) = s"
  "insight_furnace (furnace_insight c s f t v) = Some f"
  "title (furnace_insight c s f t v) = t @ f"
  "metric_value (furnace_insight c s f t v) = v"
  by (simp_all add: furnace_insight_def)

lemma dict_value_unique:
  "distinct (map fst fa) \<Longrightarrow> (f, a) \<in> set fa \<Longrightarrow> (f, a') \<in> set fa \<Longrightarrow> a' = a"
  by (rule eq_key_imp_eq_value)

lemma cost_high_emitted_iff:
  assumes "distinct (map fst fa)" and "(f, a) \<in> set fa"
  shows "(\<exists>i \<in> set (generate_cost_insights t fa).
            insight_furnace i = Some f \<and> category i = ''cost'' \<and> severity i = ''high'')
         \<longleftrightarrow> fgt (avg_cost_per_ton a) (fround (fmul (Cost_per_Ton_target t) (Fin double_1_15)))"
    (is "?L \<longleftrightarrow> ?R")
proof
  assume ?L
  then obtain i where i: "i \<in> set (generate_cost_insights t fa)" "insight_furnace i = Some f"
    by blast
  then obtain f' a' where fa': "(f', a') \<in> set fa"
      "fgt (avg_cost_per_ton a') (fround (fmul (Cost_per_Ton_target t) (Fin double_1_15)))"
      "i = furnace_insight ''cost'' ''high'' f' ''High Production Cost - '' (avg_cost_per_ton a')"
    unfolding in_generate_cost_insights by blast
  from i(2) fa'(3) have "f' = f" by simp
  with fa'(1) assms have "a' = a" by (simp add: dict_value_unique)
  with fa'(2) show ?R by simp
next
  assume ?R
  with assms(2) have
    "furnace_insight ''cost'' ''high'' f ''High Production Cost - '' (avg_cost_per_ton a)
       \<in> set (generate_cost_insights t fa)"
    unfolding in_generate_cost_insights by blast
  then show ?L
    by (rule rev_bexI) simp
qed


lemma final_cost_loop_returns:
  "map_of tg ''cost_per_ton'' = Some g \<Longrightarrow> \<exists>out. final_cost_loop tg rs = Inr out"
proof (induction rs)
  case Nil
  then show ?case by simp
next
  case (Cons r rs)
  then obtain later where "final_cost_loop tg rs = Inr later" by blast
  with Cons.prems show ?case by (simp add: Let_def)
qed

lemma fgt_nan [simp]: "\<not> fgt NaN x" "\<not> fgt x NaN"
  by (cases x; simp add: fgt_def)+

lemma isna_iff: "isna x \<longleftrightarrow> x = NaN"
  by (cases x) simp_all

lemma in_final_cost_loop:
  "map_of tg ''cost_per_ton'' = Some g \<Longrightarrow> final_cost_loop tg rs = Inr out \<Longrightarrow>
   i \<in> set out \<longleftrightarrow>
     (\<exists>r. r \<in> set rs \<and> fgt (cost_per_ton_mean r) (Fin (round64 (g * double_1_15)))
        \<and> i = furnace_insight ''cost'' ''high'' (Furnace r) ''High Operating Cost - ''
                (cost_per_ton_mean r))"
proof (induction rs arbitrary: out)
  case Nil
  then show ?case by simp
next
  case (Cons r rs)
  obtain later where later: "final_cost_loop tg rs = Inr later"
    using final_cost_loop_returns[OF Cons.prems(1)] by blast
  have IH: "i \<in> set later \<longleftrightarrow>
     (\<exists>r. r \<in> set rs \<and> fgt (cost_per_ton_mean r) (Fin (round64 (g * double_1_15)))
        \<and> i = furnace_insight ''cost'' ''high'' (Furnace r) ''High Operating Cost - ''
                (cost_per_ton_mean r))"
    using Cons.IH[OF Cons.prems(1) later] .
  show ?case
  proof (cases "isna (cost_per_ton_mean r)")
    case True
    then have "out = later" using Cons.prems later by (simp add: Let_def)
    moreover have "\<not> fgt (cost_per_ton_mean r) (Fin (round64 (g * double_1_15)))"
      using True by (simp add: isna_iff)
    ultimately show ?thesis using IH by (simp only: set_ConsD list.set insert_iff) blast
  next
    case False
    then have "out = (if fgt (cost_per_ton_mean r) (Fin (round64 (g * double_1_15)))
                      then [furnace_insight ''cost'' ''high'' (Furnace r)
                              ''High Operating Cost - '' (cost_per_ton_mean r)]
                      else []) @ later"
      using Cons.prems later by (simp add: Let_def)
    then show ?thesis using IH
      by (cases "fgt (cost_per_ton_mean r) (Fin (round64 (g * double_1_15)))") (simp_all, blast+)
  qed
qed


lemma fgt_Fin [simp]: "fgt (Fin a) (Fin b) \<longleftrightarrow> b < a"
  by (simp add: fgt_def)

lemma final_cost_emitted_iff:
  assumes "distinct (map Furnace summary)" and "r \<in> set summary"
    and "map_of tg ''cost_per_ton'' = Some g"
    and "final_cost_insights tg True summary = Inr out"
  shows "(\<exists>i \<in> set out.
            insight_furnace i = Some (Furnace r) \<and> category i = ''cost'' \<and> severity i = ''high'')
         \<longleftrightarrow> fgt (cost_per_ton_mean r) (Fin (round64 (g * double_1_15)))"
    (is "?L \<longleftrightarrow> ?R")
proof
  have out: "final_cost_loop tg summary = Inr out"
    using assms(4) by (simp add: final_cost_insights_def)
  note mem = in_final_cost_loop[OF assms(3) out]
  {
    assume ?L
    then obtain i where i: "i \<in> set out" "insight_furnace i = Some (Furnace r)"
      by blast
    then obtain r' where r': "r' \<in> set summary"
        "fgt (cost_per_ton_mean r') (Fin (round64 (g * double_1_15)))"
        "i = furnace_insight ''cost'' ''high'' (Furnace r') ''High Operating Cost - ''
               (cost_per_ton_mean r')"
      unfolding mem by blast
    from i(2) r'(3) have "Furnace r' = Furnace r" by simp
    with r'(1) assms(1,2) have "r' = r"
      by (meson distinct_map inj_onD)
    with r'(2) show ?R by simp
  }
  {
    assume ?R
    with assms(2) have
      "furnace_insight ''cost'' ''high'' (Furnace r) ''High Operating Cost - ''
         (cost_per_ton_mean r) \<in> set out"
      unfolding mem by blast
    then show ?L
      by (rule rev_bexI) simp
  }
qed

subsection \<open>The computed threshold\<close>

lemma floor_log2:
  assumes "0 < x" and "2 ^ k \<le> x" and "x < 2 ^ Suc k"
  shows "\<lfloor>log 2 x\<rfloor> = int k"
proof -
  have "real k \<le> log 2 x"
    using assms(1,2) by (simp add: le_log_iff powr_realpow)
  moreover have "log 2 x < real (Suc k)"
  proof -
    have "x < 2 powr real (Suc k)"
      using assms(3) by (simp only: powr_realpow zero_less_numeral)
    then show ?thesis
      using assms(1) log_less_iff[of 2 x "real (Suc k)"] by simp
  qed
  ultimately show ?thesis
    by (simp add: floor_eq_iff)
qed

lemma round64_pos:
  assumes "2 ^ k \<le> x" and "x < 2 ^ Suc k"
  shows "round64 x = round_at (int k - 52) x"
proof -
  have "(0::real) < 2 ^ k" by simp
  with assms(1) have pos: "0 < x" by linarith
  then show ?thesis
    using floor_log2[OF pos assms] by (simp add: round64_def)
qed

lemma round_half_even_below:
  assumes "of_int n \<le> x" and "x < of_int n + 1 / 2"
  shows "round_half_even x = n"
proof -
  from assms have "\<lfloor>x\<rfloor> = n" by (simp add: floor_eq_iff)
  then show ?thesis using assms by (simp add: round_half_even_def Let_def)
qed

lemma powr_minus_nat: "2 powr (- real n) = (1 / 2 ^ n :: real)"
proof -
  have "(2::real) powr (- real n) = 1 / 2 powr real n" by (simp only: powr_minus_divide)
  also have "\<dots> = 1 / 2 ^ n" by (simp only: powr_realpow zero_less_numeral)
  finally show ?thesis .
qed

text \<open>The literal \<open>1.15\<close> is the double \<open>2589569785738035 / 2 ^ 51\<close>, a little below 1.15.\<close>

lemma double_1_15_value: "double_1_15 = 2589569785738035 / 2 ^ 51"
proof -
  have e: "(2::real) powr of_int (int 0 - 52) = 1 / 2 ^ 52"
    using powr_minus_nat[of 52] by simp
  have "round64 1.15 = round_at (int 0 - 52) 1.15"
    by (rule round64_pos) simp_all
  also have "\<dots> = of_int (round_half_even (1.15 * 2 ^ 52)) / 2 ^ 52"
    unfolding round_at_def e by simp
  also have "round_half_even (1.15 * 2 ^ 52) = 5179139571476070"
    by (rule round_half_even_below) simp_all
  finally show ?thesis by (simp add: double_1_15_def)
qed

text \<open>
  For the default target 50000 the computed product is \<open>57499.99999999999\<close>, the double
  just below 57500.
\<close>

lemma threshold_50000: "round64 (50000 * double_1_15) = 7902739824639999 / 2 ^ 37"
proof -
  have e: "(2::real) powr of_int (int 15 - 52) = 1 / 2 ^ 37"
    using powr_minus_nat[of 37] by simp
  have "round64 (50000 * double_1_15) = round_at (int 15 - 52) (50000 * double_1_15)"
    by (rule round64_pos) (simp_all add: double_1_15_value)
  also have "\<dots> = of_int (round_half_even (50000 * double_1_15 * 2 ^ 37)) / 2 ^ 37"
    unfolding round_at_def e by simp
  also have "round_half_even (50000 * double_1_15 * 2 ^ 37) = 7902739824639999"
    by (rule round_half_even_below) (simp_all add: double_1_15_value)
  finally show ?thesis by simp
qed

lemma fgt_irrefl: "\<not> fgt x x"
  by (cases x) (simp_all add: fgt_def)

text \<open>
  C2, as the code computes it. At the default target 50000 and an average cost per ton of
  exactly \<open>57500 = 50000 * 1.15\<close>, both engines emit the high-severity cost insight: the
  threshold they compare with is the float64 product, which is smaller than 57500.
\<close>

theorem C2_counterexample:
  "(50000::real) * 1.15 = 57500
   \<and> generate_cost_insights
        \<lparr>Cost_per_Ton_target = Fin 50000, MN_Recovery_PLC_target = Fin 80,
         SI_Recovery_PLC_target = Fin 45\<rparr>
        [(''F1'', blank_analysis\<lparr>avg_cost_per_ton := Fin 57500\<rparr>)]
      = [furnace_insight ''cost'' ''high'' ''F1'' ''High Production Cost - '' (Fin 57500)]
   \<and> final_cost_insights final_targets True
        [\<lparr>Furnace = ''F1'', cost_per_ton_mean = Fin 57500, MN_Recovery_PLC_mean = NaN,
          SI_Recovery_PLC_mean = NaN\<rparr>]
      = Inr [furnace_insight ''cost'' ''high'' ''F1'' ''High Operating Cost - '' (Fin 57500)]"
proof (intro conjI)
  show "(50000::real) * 1.15 = 57500" by simp
  show "generate_cost_insights
        \<lparr>Cost_per_Ton_target = Fin 50000, MN_Recovery_PLC_target = Fin 80,
         SI_Recovery_PLC_target = Fin 45\<rparr>
        [(''F1'', blank_analysis\<lparr>avg_cost_per_ton := Fin 57500\<rparr>)]
      = [furnace_insight ''cost'' ''high'' ''F1'' ''High Production Cost - '' (Fin 57500)]"
    by (simp add: threshold_50000)
  show "final_cost_insights final_targets True
        [\<lparr>Furnace = ''F1'', cost_per_ton_mean = Fin 57500, MN_Recovery_PLC_mean = NaN,
          SI_Recovery_PLC_mean = NaN\<rparr>]
      = Inr [furnace_insight ''cost'' ''high'' ''F1'' ''High Operating Cost - '' (Fin 57500)]"
    by (simp add: final_cost_insights_def final_targets_def threshold_50000)
qed

text \<open>
  C2, amended. For a furnace of \<open>furnace_analysis\<close>, the comprehensive engine emits a
  cost insight of high severity exactly when the furnace's average cost per ton is
  greater than the float64 product of the target and the literal 1.15 (a comparison that
  is false for a missing average); for finite values this is
  \<open>round64 (target * double_1_15) < c\<close>. The comparison is strict: at an average equal to
  that computed product nothing is emitted. The same holds for the loop of
  \<open>insights_final.py\<close> over the furnace summary, which always returns.
\<close>

theorem C2_cost_high_rule:
  assumes "distinct (map fst fa)" and "(f, a) \<in> set fa"
    and "distinct (map Furnace summary)" and "r \<in> set summary"
    and "map_of tg ''cost_per_ton'' = Some g"
  shows "((\<exists>i \<in> set (generate_cost_insights t fa).
             insight_furnace i = Some f \<and> category i = ''cost'' \<and> severity i = ''high'')
          \<longleftrightarrow> fgt (avg_cost_per_ton a) (fround (fmul (Cost_per_Ton_target t) (Fin double_1_15))))
       \<and> (\<forall>c target. avg_cost_per_ton a = Fin c \<and> Cost_per_Ton_target t = Fin target \<longrightarrow>
            ((\<exists>i \<in> set (generate_cost_insights t fa).
                insight_furnace i = Some f \<and> category i = ''cost'' \<and> severity i = ''high'')
             \<longleftrightarrow> round64 (target * double_1_15) < c))
       \<and> (avg_cost_per_ton a = fround (fmul (Cost_per_Ton_target t) (Fin double_1_15)) \<longrightarrow>
            \<not> (\<exists>i \<in> set (generate_cost_insights t fa).
                  insight_furnace i = Some f \<and> category i = ''cost'' \<and> severity i = ''high''))
       \<and> (\<exists>out. final_cost_insights tg True summary = Inr out
            \<and> ((\<exists>i \<in> set out. insight_furnace i = Some (Furnace r) \<and> category i = ''cost''
                    \<and> severity i = ''high'')
                 \<longleftrightarrow> fgt (cost_per_ton_mean r) (Fin (round64 (g * double_1_15)))))"
proof (intro conjI allI impI)
  show one: "(\<exists>i \<in> set (generate_cost_insights t fa).
             insight_furnace i = Some f \<and> category i = ''cost'' \<and> severity i = ''high'')
          \<longleftrightarrow> fgt (avg_cost_per_ton a) (fround (fmul (Cost_per_Ton_target t) (Fin double_1_15)))"
    using assms(1,2) by (rule cost_high_emitted_iff)
  show "(\<exists>i \<in> set (generate_cost_insights t fa).
                insight_furnace i = Some f \<and> category i = ''cost'' \<and> severity i = ''high'')
             \<longleftrightarrow> round64 (target * double_1_15) < c"
    if "avg_cost_per_ton a = Fin c \<and> Cost_per_Ton_target t = Fin target" for c target
    unfolding one using that by simp
  show "\<not> (\<exists>i \<in> set (generate_cost_insights t fa).
                  insight_furnace i = Some f \<and> category i = ''cost'' \<and> severity i = ''high'')"
    if "avg_cost_per_ton a = fround (fmul (Cost_per_Ton_target t) (Fin double_1_15))"
    unfolding one that by (rule fgt_irrefl)
  obtain out where out: "final_cost_insights tg True summary = Inr out"
    using final_cost_loop_returns[OF assms(5)] by (auto simp: final_cost_insights_def)
  show "\<exists>out. final_cost_insights tg True summary = Inr out
            \<and> ((\<exists>i \<in> set out. insight_furnace i = Some (Furnace r) \<and> category i = ''cost''
                    \<and> severity i = ''high'')
                 \<longleftrightarrow> fgt (cost_per_ton_mean r) (Fin (round64 (g * double_1_15))))"
    using out final_cost_emitted_iff[OF assms(3,4,5) out] by blast
qed

theorem C2_cost_high_rule_witness:
  "(\<exists>i \<in> set (generate_cost_insights
                 \<lparr>Cost_per_Ton_target = Fin 50000, MN_Recovery_PLC_target = Fin 80,
                  SI_Recovery_PLC_target = Fin 45\<rparr>
                 [(''F1'', blank_analysis\<lparr>avg_cost_per_ton := Fin 60000\<rparr>),
                  (''F2'', blank_analysis\<lparr>avg_cost_per_ton := Fin (7902739824639999 / 2 ^ 37)\<rparr>)]).
      insight_furnace i = Some ''F1'' \<and> category i = ''cost'' \<and> severity i = ''high'')
   \<and> \<not> (\<exists>i \<in> set (generate_cost_insights
                 \<lparr>Cost_per_Ton_target = Fin 50000, MN_Recovery_PLC_target = Fin 80,
                  SI_Recovery_PLC_target = Fin 45\<rparr>
                 [(''F1'', blank_analysis\<lparr>avg_cost_per_ton := Fin 60000\<rparr>),
                  (''F2'', blank_analysis\<lparr>avg_cost_per_ton := Fin (7902739824639999 / 2 ^ 37)\<rparr>)]).
      insight_furnace i = Some ''F2'' \<and> category i = ''cost'' \<and> severity i = ''high'')"
proof -
  let ?t = "\<lparr>Cost_per_Ton_target = Fin 50000, MN_Recovery_PLC_target = Fin 80,
             SI_Recovery_PLC_target = Fin 45\<rparr>"
  let ?fa = "[(''F1'', blank_analysis\<lparr>avg_cost_per_ton := Fin 60000\<rparr>),
              (''F2'', blank_analysis\<lparr>avg_cost_per_ton := Fin (7902739824639999 / 2 ^ 37)\<rparr>)]"
  let ?s = "[\<lparr>Furnace = ''F1'', cost_per_ton_mean = Fin 60000, MN_Recovery_PLC_mean = NaN,
               SI_Recovery_PLC_mean = NaN\<rparr>]"
  have d: "distinct (map fst ?fa)" "distinct (map Furnace ?s)" "hd ?s \<in> set ?s"
       "map_of final_targets ''cost_per_ton'' = Some 50000"
    by (simp_all add: final_targets_def)
  have m1: "(''F1'', blank_analysis\<lparr>avg_cost_per_ton := Fin 60000\<rparr>) \<in> set ?fa"
   and m2: "(''F2'', blank_analysis\<lparr>avg_cost_per_ton := Fin (7902739824639999 / 2 ^ 37)\<rparr>)
              \<in> set ?fa"
    by simp_all
  have v: "avg_cost_per_ton (blank_analysis\<lparr>avg_cost_per_ton := Fin 60000\<rparr>) = Fin 60000"
      "avg_cost_per_ton (blank_analysis\<lparr>avg_cost_per_ton := Fin (7902739824639999 / 2 ^ 37)\<rparr>)
         = fround (fmul (Cost_per_Ton_target ?t) (Fin double_1_15))"
      "fgt (Fin 60000) (fround (fmul (Cost_per_Ton_target ?t) (Fin double_1_15)))"
    by (simp_all add: threshold_50000)
  show ?thesis
    using C2_cost_high_rule[OF d(1) m1 d(2) d(3) d(4), of ?t]
          C2_cost_high_rule[OF d(1) m2 d(2) d(3) d(4), of ?t] v
    by metis
qed

section \<open>Quality rule\<close>

lemma in_param_insights:
  "i \<in> set (param_insights f a ps) \<longleftrightarrow>
     (\<exists>p. p \<in> set ps \<and> fgt (analysis_key p a) (Fin 0)
        \<and> outside (optimal p) (analysis_key p a)
        \<and> i = furnace_insight ''quality''
                (if outside (critical p) (analysis_key p a) then ''high'' else ''medium'')
                f (param_name p @ '' Deviation - '') (analysis_key p a))"
proof (induction ps)
  case Nil
  then show ?case by simp
next
  case (Cons p ps)
  show ?case
    using Cons.IH by (simp add: Let_def) blast
qed

lemma in_generate_quality_insights:
  "i \<in> set (generate_quality_insights fa) \<longleftrightarrow>
     (\<exists>f a. (f, a) \<in> set fa
        \<and> (i \<in> set (param_insights f a quality_params)
            \<or> (flt (avg_quality_score a) (Fin 70)
                \<and> i = furnace_insight ''quality'' ''medium'' f ''Low Overall Quality Score - ''
                        (avg_quality_score a))))"
proof (induction fa)
  case Nil
  then show ?case by simp
next
  case (Cons q fa)
  obtain f a where q: "q = (f, a)" by (cases q)
  show ?case
    unfolding q using Cons.IH by simp blast
qed

lemma param_name_cases:
  "p \<in> set quality_params \<Longrightarrow>
   param_name p = ''Grade MN'' \<or> param_name p = ''Grade SI'' \<or> param_name p = ''C%''
   \<or> param_name p = ''Basicity''"
  by (auto simp: quality_params_def)

lemma param_name_inj:
  assumes "p \<in> set quality_params" and "p' \<in> set quality_params"
    and "param_name p = param_name p'"
  shows "p = p'"
proof -
  have "p = \<lparr>param_name = ''Grade MN'', analysis_key = avg_grade_mn,
              optimal = (68, 72), critical = (65, 75)\<rparr>
      \<or> p = \<lparr>param_name = ''Grade SI'', analysis_key = avg_grade_si,
              optimal = (16, 18), critical = (15, 20)\<rparr>
      \<or> p = \<lparr>param_name = ''C%'', analysis_key = avg_carbon,
              optimal = (6.5, 7.5), critical = (6, 8)\<rparr>
      \<or> p = \<lparr>param_name = ''Basicity'', analysis_key = avg_basicity,
              optimal = (1.3, 1.4), critical = (1.2, 1.5)\<rparr>"
    using assms(1) by (simp add: quality_params_def)
  moreover have "p' = \<lparr>param_name = ''Grade MN'', analysis_key = avg_grade_mn,
              optimal = (68, 72), critical = (65, 75)\<rparr>
      \<or> p' = \<lparr>param_name = ''Grade SI'', analysis_key = avg_grade_si,
              optimal = (16, 18), critical = (15, 20)\<rparr>
      \<or> p' = \<lparr>param_name = ''C%'', analysis_key = avg_carbon,
              optimal = (6.5, 7.5), critical = (6, 8)\<rparr>
      \<or> p' = \<lparr>param_name = ''Basicity'', analysis_key = avg_basicity,
              optimal = (1.3, 1.4), critical = (1.2, 1.5)\<rparr>"
    using assms(2) by (simp add: quality_params_def)
  ultimately show ?thesis
    using assms(3) by (elim disjE) simp_all
qed

lemma overall_title_differs:
  assumes "p \<in> set quality_params"
  shows "''Low Overall Quality Score - '' \<noteq> param_name p @ '' Deviation - ''"
  using param_name_cases[OF assms] by (elim disjE) simp_all

lemma deviation_emitted_iff:
  assumes "distinct (map fst fa)" and "(f, a) \<in> set fa" and "p \<in> set quality_params"
  shows "(\<exists>i \<in> set (generate_quality_insights fa).
            insight_furnace i = Some f \<and> title i = param_name p @ '' Deviation - '' @ f)
         \<longleftrightarrow> fgt (analysis_key p a) (Fin 0) \<and> outside (optimal p) (analysis_key p a)"
    (is "?L \<longleftrightarrow> ?R")
proof
  assume ?L
  then obtain i where i: "i \<in> set (generate_quality_insights fa)"
      "insight_furnace i = Some f" "title i = param_name p @ '' Deviation - '' @ f"
    by blast
  from i(1) obtain f' a' where fa': "(f', a') \<in> set fa"
      and alt: "i \<in> set (param_insights f' a' quality_params)
            \<or> (flt (avg_quality_score a') (Fin 70)
                \<and> i = furnace_insight ''quality'' ''medium'' f' ''Low Overall Quality Score - ''
                        (avg_quality_score a'))"
    unfolding in_generate_quality_insights by blast
  from alt show ?R
  proof
    assume "i \<in> set (param_insights f' a' quality_params)"
    then obtain p' where p': "p' \<in> set quality_params"
        "fgt (analysis_key p' a') (Fin 0)" "outside (optimal p') (analysis_key p' a')"
        "i = furnace_insight ''quality''
                (if outside (critical p') (analysis_key p' a') then ''high'' else ''medium'')
                f' (param_name p' @ '' Deviation - '') (analysis_key p' a')"
      unfolding in_param_insights by blast
    from i(2) p'(4) have f: "f' = f" by simp
    with fa' assms(1,2) have a: "a' = a" by (simp add: dict_value_unique)
    from i(3) p'(4) f have "param_name p' = param_name p" by simp
    with p'(1) assms(3) have "p' = p" by (simp add: param_name_inj)
    with p'(2,3) a show ?R by simp
  next
    assume "flt (avg_quality_score a') (Fin 70)
                \<and> i = furnace_insight ''quality'' ''medium'' f' ''Low Overall Quality Score - ''
                        (avg_quality_score a')"
    then have t: "title i = ''Low Overall Quality Score - '' @ f'"
      and "insight_furnace i = Some f'" by simp_all
    with i(2) have "f' = f" by simp
    with t i(3) have "''Low Overall Quality Score - '' = param_name p @ '' Deviation - ''"
      by simp
    with overall_title_differs[OF assms(3)] show ?R by simp
  qed
next
  assume ?R
  then have "furnace_insight ''quality''
                (if outside (critical p) (analysis_key p a) then ''high'' else ''medium'')
                f (param_name p @ '' Deviation - '') (analysis_key p a)
             \<in> set (param_insights f a quality_params)"
    unfolding in_param_insights using assms(3) by blast
  then have "furnace_insight ''quality''
                (if outside (critical p) (analysis_key p a) then ''high'' else ''medium'')
                f (param_name p @ '' Deviation - '') (analysis_key p a)
             \<in> set (generate_quality_insights fa)"
    unfolding in_generate_quality_insights using assms(2) by blast
  then show ?L
    by (rule rev_bexI) simp
qed

lemma not_fgt_zero:
  "\<not> fgt v (Fin 0) \<longleftrightarrow> v = NaN \<or> v = NInf \<or> (\<exists>x. v = Fin x \<and> x \<le> 0)"
  by (cases v) (auto simp: fgt_def)

lemma quality_insight_source:
  assumes "distinct (map fst fa)" and "(f, a) \<in> set fa"
    and "i \<in> set (generate_quality_insights fa)" and "insight_furnace i = Some f"
  shows "i \<in> set (param_insights f a quality_params)
       \<or> (flt (avg_quality_score a) (Fin 70)
           \<and> i = furnace_insight ''quality'' ''medium'' f ''Low Overall Quality Score - ''
                   (avg_quality_score a))"
proof -
  from assms(3) obtain f' a' where fa': "(f', a') \<in> set fa"
      and alt: "i \<in> set (param_insights f' a' quality_params)
            \<or> (flt (avg_quality_score a') (Fin 70)
                \<and> i = furnace_insight ''quality'' ''medium'' f' ''Low Overall Quality Score - ''
                        (avg_quality_score a'))"
    unfolding in_generate_quality_insights by blast
  have "insight_furnace i = Some f'"
    using alt unfolding in_param_insights by (elim disjE exE conjE) simp_all
  with assms(4) have f: "f' = f" by simp
  with fa' assms(1,2) have "a' = a" by (simp add: dict_value_unique)
  with alt f show ?thesis by simp
qed

lemma overall_emitted_iff:
  assumes "distinct (map fst fa)" and "(f, a) \<in> set fa"
  shows "(\<exists>i \<in> set (generate_quality_insights fa).
            insight_furnace i = Some f \<and> title i = ''Low Overall Quality Score - '' @ f)
         \<longleftrightarrow> flt (avg_quality_score a) (Fin 70)"
    (is "?L \<longleftrightarrow> ?R")
proof
  assume ?L
  then obtain i where i: "i \<in> set (generate_quality_insights fa)"
      "insight_furnace i = Some f" "title i = ''Low Overall Quality Score - '' @ f"
    by blast
  from quality_insight_source[OF assms i(1,2)] show ?R
  proof
    assume "i \<in> set (param_insights f a quality_params)"
    then obtain p where p: "p \<in> set quality_params"
        "i = furnace_insight ''quality''
                (if outside (critical p) (analysis_key p a) then ''high'' else ''medium'')
                f (param_name p @ '' Deviation - '') (analysis_key p a)"
      unfolding in_param_insights by blast
    from p(2) i(3) have "''Low Overall Quality Score - '' = param_name p @ '' Deviation - ''"
      by simp
    with overall_title_differs[OF p(1)] show ?R by simp
  qed simp
next
  assume ?R
  then have "furnace_insight ''quality'' ''medium'' f ''Low Overall Quality Score - ''
               (avg_quality_score a) \<in> set (generate_quality_insights fa)"
    unfolding in_generate_quality_insights using assms(2) by blast
  then show ?L
    by (rule rev_bexI) simp
qed

lemma any_quality_emitted_iff:
  assumes "distinct (map fst fa)" and "(f, a) \<in> set fa"
  shows "(\<exists>i \<in> set (generate_quality_insights fa). insight_furnace i = Some f)
         \<longleftrightarrow> (\<exists>p \<in> set quality_params.
                 fgt (analysis_key p a) (Fin 0) \<and> outside (optimal p) (analysis_key p a))
             \<or> flt (avg_quality_score a) (Fin 70)"
    (is "?L \<longleftrightarrow> ?P \<or> ?Q")
proof
  assume ?L
  then obtain i where i: "i \<in> set (generate_quality_insights fa)" "insight_furnace i = Some f"
    by blast
  from quality_insight_source[OF assms i] show "?P \<or> ?Q"
    unfolding in_param_insights by blast
next
  assume "?P \<or> ?Q"
  then show ?L
  proof
    assume ?P
    then obtain p where p: "p \<in> set quality_params" "fgt (analysis_key p a) (Fin 0)"
        "outside (optimal p) (analysis_key p a)"
      by blast
    then have "furnace_insight ''quality''
                (if outside (critical p) (analysis_key p a) then ''high'' else ''medium'')
                f (param_name p @ '' Deviation - '') (analysis_key p a)
             \<in> set (param_insights f a quality_params)"
      unfolding in_param_insights by blast
    then have "furnace_insight ''quality''
                (if outside (critical p) (analysis_key p a) then ''high'' else ''medium'')
                f (param_name p @ '' Deviation - '') (analysis_key p a)
             \<in> set (generate_quality_insights fa)"
      unfolding in_generate_quality_insights using assms(2) by blast
    then show ?L
      by (rule rev_bexI) simp
  next
    assume ?Q
    then have "furnace_insight ''quality'' ''medium'' f ''Low Overall Quality Score - ''
               (avg_quality_score a) \<in> set (generate_quality_insights fa)"
      unfolding in_generate_quality_insights using assms(2) by blast
    then show ?L
      by (rule rev_bexI) simp
  qed
qed

lemma quality_category:
  "i \<in> set (generate_quality_insights fa) \<Longrightarrow> category i = ''quality''"
  unfolding in_generate_quality_insights in_param_insights
  by (elim disjE exE conjE) simp_all

text \<open>
  C10, as the code behaves. A furnace whose four quality averages are all zero still
  gets a quality insight, the one on its overall quality score (4.6 for such records);
  and a furnace whose average Grade MN is zero still gets the deviation insight of
  another parameter.
\<close>

theorem C10_counterexample:
  "generate_quality_insights
     [(''F1'', blank_analysis\<lparr>avg_grade_mn := Fin 0, avg_grade_si := Fin 0, avg_carbon := Fin 0,
                             avg_basicity := Fin 0, avg_quality_score := Fin 4.6\<rparr>)]
   = [furnace_insight ''quality'' ''medium'' ''F1'' ''Low Overall Quality Score - '' (Fin 4.6)]
   \<and> generate_quality_insights
       [(''F1'', blank_analysis\<lparr>avg_grade_mn := Fin 0, avg_basicity := Fin 1.6,
                               avg_quality_score := Fin 80\<rparr>)]
     = [furnace_insight ''quality'' ''high'' ''F1'' ''Basicity Deviation - '' (Fin 1.6)]"
  by (simp add: quality_params_def outside_def blank_analysis_def)


text \<open>
  C10, amended. The guard \<open>current_value > 0\<close> gates one parameter's deviation insight
  only. For a furnace and a quality parameter (Grade MN, Grade SI, C% or Basicity), the
  deviation insight of that parameter is emitted exactly when the furnace's average is
  greater than 0 and outside the optimal band; an average that is zero, negative or
  missing yields no deviation insight for that parameter, although zero lies outside
  every optimal band. The insight on the overall quality score is not gated: it is
  emitted exactly when the average quality score is below 70. So the furnace gets some
  quality insight exactly when one of its four averages is positive and outside its
  optimal band, or its average quality score is below 70.
\<close>

theorem C10_quality_needs_positive_average:
  assumes "distinct (map fst fa)" and "(f, a) \<in> set fa" and "p \<in> set quality_params"
  shows "((\<exists>i \<in> set (generate_quality_insights fa).
             insight_furnace i = Some f \<and> title i = param_name p @ '' Deviation - '' @ f)
          \<longleftrightarrow> fgt (analysis_key p a) (Fin 0) \<and> outside (optimal p) (analysis_key p a))
       \<and> (analysis_key p a = NaN \<or> (\<exists>x. analysis_key p a = Fin x \<and> x \<le> 0) \<longrightarrow>
            \<not> (\<exists>i \<in> set (generate_quality_insights fa).
                  insight_furnace i = Some f \<and> title i = param_name p @ '' Deviation - '' @ f))
       \<and> (analysis_key p a = Fin 0 \<longrightarrow> outside (optimal p) (analysis_key p a))
       \<and> ((\<exists>i \<in> set (generate_quality_insights fa).
             insight_furnace i = Some f \<and> title i = ''Low Overall Quality Score - '' @ f)
          \<longleftrightarrow> flt (avg_quality_score a) (Fin 70))
       \<and> ((\<exists>i \<in> set (generate_quality_insights fa).
             insight_furnace i = Some f \<and> category i = ''quality'')
          \<longleftrightarrow> (\<exists>q \<in> set quality_params.
                  fgt (analysis_key q a) (Fin 0) \<and> outside (optimal q) (analysis_key q a))
              \<or> flt (avg_quality_score a) (Fin 70))"
proof (intro conjI impI)
  show iff: "(\<exists>i \<in> set (generate_quality_insights fa).
             insight_furnace i = Some f \<and> title i = param_name p @ '' Deviation - '' @ f)
          \<longleftrightarrow> fgt (analysis_key p a) (Fin 0) \<and> outside (optimal p) (analysis_key p a)"
    using assms by (rule deviation_emitted_iff)
  show "\<not> (\<exists>i \<in> set (generate_quality_insights fa).
                  insight_furnace i = Some f \<and> title i = param_name p @ '' Deviation - '' @ f)"
    if "analysis_key p a = NaN \<or> (\<exists>x. analysis_key p a = Fin x \<and> x \<le> 0)"
  proof -
    from that have "\<not> fgt (analysis_key p a) (Fin 0)"
      unfolding not_fgt_zero by blast
    then show ?thesis unfolding iff by simp
  qed
  show "outside (optimal p) (analysis_key p a)" if z: "analysis_key p a = Fin 0"
  proof -
    have "0 < fst (optimal p)"
      using assms(3) by (auto simp: quality_params_def)
    then show ?thesis unfolding z by (simp add: outside_def)
  qed
  show "(\<exists>i \<in> set (generate_quality_insights fa).
             insight_furnace i = Some f \<and> title i = ''Low Overall Quality Score - '' @ f)
          \<longleftrightarrow> flt (avg_quality_score a) (Fin 70)"
    using assms(1,2) by (rule overall_emitted_iff)
  have "(\<exists>i \<in> set (generate_quality_insights fa).
             insight_furnace i = Some f \<and> category i = ''quality'')
        \<longleftrightarrow> (\<exists>i \<in> set (generate_quality_insights fa). insight_furnace i = Some f)"
    using quality_category by blast
  then show "(\<exists>i \<in> set (generate_quality_insights fa).
             insight_furnace i = Some f \<and> category i = ''quality'')
          \<longleftrightarrow> (\<exists>q \<in> set quality_params.
                  fgt (analysis_key q a) (Fin 0) \<and> outside (optimal q) (analysis_key q a))
              \<or> flt (avg_quality_score a) (Fin 70)"
    unfolding any_quality_emitted_iff[OF assms(1,2)] .
qed

theorem C10_quality_needs_positive_average_witness:
  "\<not> (\<exists>i \<in> set (generate_quality_insights
                     [(''F1'', blank_analysis\<lparr>avg_grade_mn := Fin 0, avg_basicity := Fin 1.6,
                                             avg_quality_score := Fin 60\<rparr>)]).
         insight_furnace i = Some ''F1'' \<and> title i = ''Grade MN Deviation - F1'')
   \<and> (\<exists>i \<in> set (generate_quality_insights
                     [(''F1'', blank_analysis\<lparr>avg_grade_mn := Fin 0, avg_basicity := Fin 1.6,
                                             avg_quality_score := Fin 60\<rparr>)]).
         insight_furnace i = Some ''F1'' \<and> title i = ''Basicity Deviation - F1'')
   \<and> (\<exists>i \<in> set (generate_quality_insights
                     [(''F1'', blank_analysis\<lparr>avg_grade_mn := Fin 0, avg_basicity := Fin 1.6,
                                             avg_quality_score := Fin 60\<rparr>)]).
         insight_furnace i = Some ''F1'' \<and> title i = ''Low Overall Quality Score - F1'')"
proof -
  let ?a = "blank_analysis\<lparr>avg_grade_mn := Fin 0, avg_basicity := Fin 1.6,
                           avg_quality_score := Fin 60\<rparr>"
  let ?mn = "\<lparr>param_name = ''Grade MN'', analysis_key = avg_grade_mn,
              optimal = (68, 72), critical = (65, 75)\<rparr>"
  let ?bas = "\<lparr>param_name = ''Basicity'', analysis_key = avg_basicity,
              optimal = (1.3, 1.4), critical = (1.2, 1.5)\<rparr>"
  have d: "distinct (map fst [(''F1'', ?a)])" and m: "(''F1'', ?a) \<in> set [(''F1'', ?a)]"
    by simp_all
  have p1: "?mn \<in> set quality_params" and p2: "?bas \<in> set quality_params"
    by (simp_all add: quality_params_def)
  have one: "\<not> (\<exists>i \<in> set (generate_quality_insights [(''F1'', ?a)]).
         insight_furnace i = Some ''F1'' \<and> title i = ''Grade MN Deviation - F1'')"
    using C10_quality_needs_positive_average[OF d m p1, THEN conjunct1] by simp
  have two: "\<exists>i \<in> set (generate_quality_insights [(''F1'', ?a)]).
         insight_furnace i = Some ''F1'' \<and> title i = ''Basicity Deviation - F1''"
    using C10_quality_needs_positive_average[OF d m p2, THEN conjunct1] by (simp add: outside_def)
  have three: "\<exists>i \<in> set (generate_quality_insights [(''F1'', ?a)]).
         insight_furnace i = Some ''F1'' \<and> title i = ''Low Overall Quality Score - F1''"
    using C10_quality_needs_positive_average[OF d m p2, THEN conjunct2, THEN conjunct2, THEN conjunct2, THEN conjunct1]
    by simp
  from one two three show ?thesis by blast
qed

section \<open>Recovery rules\<close>

lemma flt_nan [simp]: "\<not> flt x NaN"
  by (cases x) simp_all




lemma remove_PLC_metrics:
  "remove_PLC ''MN Recovery PLC'' = ''MN Recovery''"
  "remove_PLC ''SI Recovery PLC'' = ''SI Recovery''"
  by simp_all

text \<open>
  With the targets of the constructor, whose keys still end in \<open>PLC\<close>, the lookup of the
  shortened key finds nothing and the rule of \<open>insights_final.py\<close> emits no insight.
\<close>

lemma final_recovery_insights_default_targets:
  "final_recovery_insights final_targets has_mn has_si furnace_summary = []"
  by (simp add: final_recovery_insights_def final_recovery_metric_def remove_PLC_metrics
      final_targets_def)







section \<open>Sums and means of finite columns\<close>

lemma foldl_fadd_Fin: "foldl fadd (Fin s) (map Fin xs) = Fin (s + sum_list xs)"
  by (induction xs arbitrary: s) (simp_all add: add.assoc)

lemma dropna_map_Fin: "dropna (map Fin xs) = map Fin xs"
  by (induction xs) (simp_all add: dropna_def)

lemma fsum_map_Fin: "fsum (map Fin xs) = Fin (sum_list xs)"
  by (simp add: fsum_def dropna_map_Fin foldl_fadd_Fin)

lemma fmean_map_Fin:
  "xs \<noteq> [] \<Longrightarrow> fmean (map Fin xs) = Fin (sum_list xs / real (length xs))"
  by (simp add: fmean_def dropna_map_Fin foldl_fadd_Fin)

section \<open>The rows of the processed frame\<close>

lemma furnace_set_col:
  "i < length (rows df) \<Longrightarrow> furnace (rows (set_col df c f) ! i) = furnace (rows df ! i)"
  by (simp add: set_col_def set_cell_def)

lemma furnace_if_set_col:
  "i < length (rows df) \<Longrightarrow>
   furnace (rows (if b then set_col df c f else df) ! i) = furnace (rows df ! i)"
  by (simp add: furnace_set_col)

lemma furnace_calculate_metrics:
  "i < length (rows df) \<Longrightarrow> furnace (rows (calculate_metrics df) ! i) = furnace (rows df ! i)"
  by (simp add: calculate_metrics_def Let_def ratio_col_def gap_col_def frame_simps
      furnace_set_col furnace_if_set_col)

lemma cost_cell:
  assumes "Total_Cost_PLC \<in> columns df" and "Actual_Production_Qty \<in> columns df"
    and "i < length (rows df)"
  shows "cell (rows (calculate_metrics df) ! i) Cost_per_Ton
         = fdiv (cell (rows df ! i) Total_Cost_PLC) (cell (rows df ! i) Actual_Production_Qty)"
  using assms
  by (simp add: calculate_metrics_def Let_def ratio_col_def gap_col_def frame_simps)

lemma columns_calculate_metrics:
  "x \<in> columns df \<Longrightarrow> x \<in> columns (calculate_metrics df)"
  by (simp add: calculate_metrics_def Let_def ratio_col_def gap_col_def frame_simps)

lemma cost_column_calculate_metrics:
  "Total_Cost_PLC \<in> columns df \<Longrightarrow> Actual_Production_Qty \<in> columns df \<Longrightarrow>
   Cost_per_Ton \<in> columns (calculate_metrics df)"
  by (simp add: calculate_metrics_def Let_def ratio_col_def gap_col_def frame_simps)

lemma map_filter_pointwise:
  "length xs = length ys \<Longrightarrow>
   (\<And>i. i < length xs \<Longrightarrow> P (xs ! i) = Q (ys ! i) \<and> h (xs ! i) = k (ys ! i)) \<Longrightarrow>
   map h (filter P xs) = map k (filter Q ys)"
proof (induction xs ys rule: list_induct2)
  case Nil
  then show ?case by simp
next
  case (Cons x xs y ys)
  have head: "P x = Q y \<and> h x = k y"
    using Cons.prems[of 0] by simp
  have "P (xs ! i) = Q (ys ! i) \<and> h (xs ! i) = k (ys ! i)" if "i < length xs" for i
    using Cons.prems[of "Suc i"] that by simp
  then have "map h (filter P xs) = map k (filter Q ys)"
    by (rule Cons.IH)
  with head show ?case by simp
qed

lemma furnace_cost_column:
  assumes "Total_Cost_PLC \<in> columns df" and "Actual_Production_Qty \<in> columns df"
  shows "column (furnace_data (calculate_metrics df) f) Cost_per_Ton
         = map (\<lambda>r. fdiv (cell r Total_Cost_PLC) (cell r Actual_Production_Qty))
             (filter (\<lambda>r. furnace r = f) (rows df))"
  unfolding column_def furnace_data_def
  using assms
  by (simp, intro map_filter_pointwise)
     (simp_all add: length_rows_calculate_metrics furnace_calculate_metrics cost_cell)

section \<open>Average cost per ton of a furnace\<close>

lemma fsum_Fin: "fsum (map (\<lambda>x. Fin (g x)) xs) = Fin (sum_list (map g xs))"
  using fsum_map_Fin[of "map g xs"] by (simp add: o_def)

lemma fmean_Fin:
  "xs \<noteq> [] \<Longrightarrow> fmean (map (\<lambda>x. Fin (g x)) xs) = Fin (sum_list (map g xs) / real (length xs))"
  using fmean_map_Fin[of "map g xs"] by (simp add: o_def)

lemma map_Fin_fin:
  assumes "\<And>r. r \<in> set rs \<Longrightarrow> \<exists>c. k r = Fin c"
  shows "map k rs = map (\<lambda>r. Fin (fin (k r))) rs"
proof (rule map_cong[OF refl])
  fix r assume "r \<in> set rs"
  then obtain c where "k r = Fin c" using assms by blast
  then show "k r = Fin (fin (k r))" by simp
qed

lemma sum_list_pos_real:
  "rs \<noteq> [] \<Longrightarrow> (\<And>r. r \<in> set rs \<Longrightarrow> 0 < (k r :: real)) \<Longrightarrow> 0 < (\<Sum>r\<leftarrow>rs. k r)"
proof (induction rs)
  case Nil
  then show ?case by simp
next
  case (Cons r rs)
  show ?case
  proof (cases "rs = []")
    case True
    with Cons.prems show ?thesis by simp
  next
    case False
    then have "0 < (\<Sum>r\<leftarrow>rs. k r)" using Cons by simp
    moreover have "0 < k r" using Cons.prems by simp
    ultimately show ?thesis by simp
  qed
qed

lemma set_unique [simp]: "set (unique xs) = set xs"
  by (simp add: unique_def)

lemma distinct_unique [simp]: "distinct (unique xs)"
  by (simp add: unique_def)

lemma analyze_by_furnace_returns:
  assumes "required_columns \<subseteq> columns df"
  shows "analyze_by_furnace df
         = Inr (map (\<lambda>f. (f, analyze_furnace (furnace_data df f))) (unique (map furnace (rows df))))"
  using assms by (simp add: analyze_by_furnace_def Let_def)

lemma map_of_analysis:
  "f \<in> set ks \<Longrightarrow> map_of (map (\<lambda>f. (f, h f)) ks) f = Some (h f)"
  by (induction ks) auto

lemma ratios_finite:
  assumes "\<And>r. r \<in> set rs \<Longrightarrow>
             \<exists>c p. cell r Total_Cost_PLC = Fin c \<and> cell r Actual_Production_Qty = Fin p \<and> 0 < p"
  shows "map (\<lambda>r. fdiv (cell r Total_Cost_PLC) (cell r Actual_Production_Qty)) rs
         = map (\<lambda>r. Fin (fin (cell r Total_Cost_PLC) / fin (cell r Actual_Production_Qty))) rs"
proof (rule map_cong[OF refl])
  fix r assume "r \<in> set rs"
  then obtain c p where "cell r Total_Cost_PLC = Fin c" "cell r Actual_Production_Qty = Fin p"
      "0 < p"
    using assms by blast
  then show "fdiv (cell r Total_Cost_PLC) (cell r Actual_Production_Qty)
             = Fin (fin (cell r Total_Cost_PLC) / fin (cell r Actual_Production_Qty))"
    by simp
qed

lemma complete_avg_cost_per_ton:
  assumes "Total_Cost_PLC \<in> columns df" and "Actual_Production_Qty \<in> columns df"
    and "rs = filter (\<lambda>r. furnace r = f) (rows df)" and "rs \<noteq> []"
    and "\<And>r. r \<in> set rs \<Longrightarrow>
           \<exists>c p. cell r Total_Cost_PLC = Fin c \<and> cell r Actual_Production_Qty = Fin p \<and> 0 < p"
  shows "avg_cost_per_ton (analyze_furnace (furnace_data (calculate_metrics df) f))
         = Fin (mean_of_ratios rs)"
proof -
  have col: "Cost_per_Ton \<in> columns (furnace_data (calculate_metrics df) f)"
    using assms(1,2) by (simp add: furnace_data_def cost_column_calculate_metrics)
  have "column (furnace_data (calculate_metrics df) f) Cost_per_Ton
        = map (\<lambda>r. fdiv (cell r Total_Cost_PLC) (cell r Actual_Production_Qty)) rs"
    using furnace_cost_column[OF assms(1,2), of f] assms(3) by simp
  also have "\<dots> = map (\<lambda>r. Fin (fin (cell r Total_Cost_PLC) / fin (cell r Actual_Production_Qty))) rs"
    using assms(5) by (rule ratios_finite)
  finally have "fmean (column (furnace_data (calculate_metrics df) f) Cost_per_Ton)
                = Fin (mean_of_ratios rs)"
    using assms(4) by (simp add: fmean_Fin mean_of_ratios_def)
  then show ?thesis
    using col by (simp add: analyze_furnace_def mean_or_0_def)
qed

lemma capacity_avg_cost_mt:
  assumes "rs = filter (\<lambda>r. furnace r = f) (rows df)" and "rs \<noteq> []"
    and "\<And>r. r \<in> set rs \<Longrightarrow>
           \<exists>c p. cell r Total_Cost_PLC = Fin c \<and> cell r Actual_Production_Qty = Fin p \<and> 0 < p"
  shows "avg_cost_mt (furnace_data df f) = Fin (ratio_of_sums rs)"
proof -
  have "map (\<lambda>r. cell r Total_Cost_PLC) rs = map (\<lambda>r. Fin (fin (cell r Total_Cost_PLC))) rs"
    by (rule map_Fin_fin) (use assms(3) in blast)
  then have c: "column (furnace_data df f) Total_Cost_PLC
           = map (\<lambda>r. Fin (fin (cell r Total_Cost_PLC))) rs"
    using assms(1) by (simp add: column_def furnace_data_def)
  have "map (\<lambda>r. cell r Actual_Production_Qty) rs
        = map (\<lambda>r. Fin (fin (cell r Actual_Production_Qty))) rs"
    by (rule map_Fin_fin) (use assms(3) in blast)
  then have p: "column (furnace_data df f) Actual_Production_Qty
           = map (\<lambda>r. Fin (fin (cell r Actual_Production_Qty))) rs"
    using assms(1) by (simp add: column_def furnace_data_def)
  have "0 < fin (cell r Actual_Production_Qty)" if "r \<in> set rs" for r
    using assms(3)[OF that] by auto
  then have "0 < (\<Sum>r\<leftarrow>rs. fin (cell r Actual_Production_Qty))"
    using assms(2) by (intro sum_list_pos_real)
  then show ?thesis
    by (simp add: avg_cost_mt_def c p fsum_Fin ratio_of_sums_def)
qed

text \<open>
  C5 (as stated, refuted). The claim has every module average the cost per ton of a
  furnace as the mean of the per-record ratios. The capacity calculator divides the sum
  of the costs by the sum of the production: for F1 of the example frame it yields
  200/3, where the mean of the ratios 100/1 and 100/2 is 75.
\<close>

theorem C5_counterexample:
  "avg_cost_mt (furnace_data two_day_frame ''F1'') = Fin (200 / 3)
   \<and> mean_of_ratios (filter (\<lambda>r. furnace r = ''F1'') (rows two_day_frame)) = 75"
  by (simp add: avg_cost_mt_def furnace_data_def two_day_frame_def column_def fsum_def
      dropna_def mean_of_ratios_def)

text \<open>
  C5 (amended). For a furnace whose records all have a numeric cost and a positive
  numeric production, the complete analyzer's \<open>avg_cost_per_ton\<close> is the arithmetic mean
  of the per-record ratios cost / production, whereas the capacity calculator's
  \<open>avg_cost_mt\<close> for the same records is the ratio of the sums.
\<close>

theorem C5_mean_of_ratios_and_ratio_of_sums:
  assumes "required_columns \<subseteq> columns df"
    and "rs = filter (\<lambda>r. furnace r = f) (rows df)" and "rs \<noteq> []"
    and "\<And>r. r \<in> set rs \<Longrightarrow>
           \<exists>c p. cell r Total_Cost_PLC = Fin c \<and> cell r Actual_Production_Qty = Fin p \<and> 0 < p"
  shows "\<exists>fa a. analyze_by_furnace (calculate_metrics df) = Inr fa \<and> map_of fa f = Some a
           \<and> avg_cost_per_ton a = Fin (mean_of_ratios rs)
           \<and> avg_cost_mt (furnace_data df f) = Fin (ratio_of_sums rs)"
proof -
  have cols: "Total_Cost_PLC \<in> columns df" "Actual_Production_Qty \<in> columns df"
    using assms(1) by (auto simp: required_columns_def)
  have req: "required_columns \<subseteq> columns (calculate_metrics df)"
    using assms(1) columns_calculate_metrics by blast
  have "set rs \<noteq> {}" using assms(3) by simp
  then obtain r where "r \<in> set (rows df)" "furnace r = f"
    unfolding assms(2) by auto
  moreover have "map furnace (rows (calculate_metrics df)) = map furnace (rows df)"
    by (rule nth_equalityI)
       (simp_all add: length_rows_calculate_metrics furnace_calculate_metrics)
  ultimately have f: "f \<in> set (unique (map furnace (rows (calculate_metrics df))))"
    by force
  let ?fa = "map (\<lambda>f. (f, analyze_furnace (furnace_data (calculate_metrics df) f)))
               (unique (map furnace (rows (calculate_metrics df))))"
  have "analyze_by_furnace (calculate_metrics df) = Inr ?fa"
    using req by (rule analyze_by_furnace_returns)
  moreover have "map_of ?fa f
      = Some (analyze_furnace (furnace_data (calculate_metrics df) f))"
    using f by (rule map_of_analysis)
  moreover have "avg_cost_per_ton (analyze_furnace (furnace_data (calculate_metrics df) f))
      = Fin (mean_of_ratios rs)"
    using cols assms(2,3,4) by (rule complete_avg_cost_per_ton)
  moreover have "avg_cost_mt (furnace_data df f) = Fin (ratio_of_sums rs)"
    using assms(2,3,4) by (rule capacity_avg_cost_mt)
  ultimately show ?thesis by blast
qed

theorem C5_mean_of_ratios_and_ratio_of_sums_witness:
  "\<exists>fa a. analyze_by_furnace (calculate_metrics two_day_frame) = Inr fa
     \<and> map_of fa ''F1'' = Some a \<and> avg_cost_per_ton a = Fin 75
     \<and> avg_cost_mt (furnace_data two_day_frame ''F1'') = Fin (200 / 3)"
proof -
  let ?rs = "[\<lparr>furnace = ''F1'',
               cell = blank(Total_Cost_PLC := Fin 100, Actual_Production_Qty := Fin 1)\<rparr>,
              \<lparr>furnace = ''F1'',
               cell = blank(Total_Cost_PLC := Fin 100, Actual_Production_Qty := Fin 2)\<rparr>]"
  have h: "required_columns \<subseteq> columns two_day_frame"
      "?rs = filter (\<lambda>r. furnace r = ''F1'') (rows two_day_frame)" "?rs \<noteq> []"
    by (simp_all add: two_day_frame_def)
  have fin: "\<exists>c p. cell r Total_Cost_PLC = Fin c \<and> cell r Actual_Production_Qty = Fin p \<and> 0 < p"
    if "r \<in> set ?rs" for r
    using that by auto
  show ?thesis
    using C5_mean_of_ratios_and_ratio_of_sums[OF h fin]
    by (simp add: mean_of_ratios_def ratio_of_sums_def)
qed

section \<open>Cost per ton of a record\<close>

text \<open>
  The accurate analyzer divides only under the mask \<open>production > 0\<close>: its cost per ton
  is the exact quotient for a positive production and missing for a production that is
  zero, negative or missing.
\<close>

lemma accurate_cost_cell:
  assumes "Total_Cost_PLC \<in> columns df" and "Actual_Production_Qty \<in> columns df"
    and "i < length (rows df)"
  shows "cell (rows (accurate_cost_per_ton df) ! i) Cost_per_Ton_Accurate
         = masked_ratio Actual_Production_Qty Total_Cost_PLC Actual_Production_Qty (rows df ! i)"
  using assms by (simp add: accurate_cost_per_ton_def cell_set_col)

lemma accurate_cost_per_ton_guarded:
  assumes "Total_Cost_PLC \<in> columns df" and "Actual_Production_Qty \<in> columns df"
    and "i < length (rows df)"
  shows "cell (rows df ! i) Total_Cost_PLC = Fin c \<Longrightarrow>
         cell (rows df ! i) Actual_Production_Qty = Fin p \<Longrightarrow> 0 < p \<Longrightarrow>
         cell (rows (accurate_cost_per_ton df) ! i) Cost_per_Ton_Accurate = Fin (c / p)"
    and "cell (rows df ! i) Actual_Production_Qty = Fin 0
           \<or> cell (rows df ! i) Actual_Production_Qty = NaN \<Longrightarrow>
         cell (rows (accurate_cost_per_ton df) ! i) Cost_per_Ton_Accurate = NaN"
  using assms by (auto simp: accurate_cost_cell masked_ratio_def)

text \<open>
  The complete analyzer divides without a mask: the quotient is exact for a positive
  production, but a zero production yields an infinity (or \<open>NaN\<close> for a zero cost).
\<close>

lemma complete_cost_per_ton_positive:
  assumes "Total_Cost_PLC \<in> columns df" and "Actual_Production_Qty \<in> columns df"
    and "i < length (rows df)"
    and "cell (rows df ! i) Total_Cost_PLC = Fin c"
    and "cell (rows df ! i) Actual_Production_Qty = Fin p" and "0 < p"
  shows "cell (rows (calculate_metrics df) ! i) Cost_per_Ton = Fin (c / p)"
  using assms by (simp add: cost_cell)

lemma zero_production_columns:
  "Total_Cost_PLC \<in> columns zero_production_frame"
  "Actual_Production_Qty \<in> columns zero_production_frame"
  "required_columns \<subseteq> columns zero_production_frame"
  by (simp_all add: zero_production_frame_def required_columns_def)

lemma zero_production_cost_column:
  "column (furnace_data (calculate_metrics zero_production_frame) ''F1'') Cost_per_Ton = [PInf]"
  by (simp add: furnace_cost_column zero_production_columns)
     (simp add: zero_production_frame_def)

lemma zero_production_furnaces:
  "unique (map furnace (rows (calculate_metrics zero_production_frame))) = [''F1'']"
proof -
  have "map furnace (rows (calculate_metrics zero_production_frame))
        = map furnace (rows zero_production_frame)"
    by (rule nth_equalityI)
       (simp_all add: length_rows_calculate_metrics furnace_calculate_metrics)
  then show ?thesis
    by (simp add: zero_production_frame_def unique_def)
qed

text \<open>
  C1 (the code at the failing input). For a record with a cost of 100 and a production
  of 0, the complete analyzer stores an infinite cost per ton instead of leaving it
  absent; the infinity becomes the furnace's average and reaches the cost insight of
  the comprehensive engine.
\<close>

theorem C1_zero_production_gives_infinity:
  "column (calculate_metrics zero_production_frame) Cost_per_Ton = [PInf]
   \<and> (\<exists>fa. analyze_by_furnace (calculate_metrics zero_production_frame) = Inr fa
        \<and> map (\<lambda>i. (insight_furnace i, severity i, metric_value i))
             (generate_cost_insights
                \<lparr>Cost_per_Ton_target = Fin 50000, MN_Recovery_PLC_target = Fin 80,
                 SI_Recovery_PLC_target = Fin 45\<rparr> fa)
           = [(Some ''F1'', ''high'', PInf)])"
proof
  have len: "length (rows (calculate_metrics zero_production_frame)) = 1"
    by (simp add: length_rows_calculate_metrics zero_production_frame_def)
  have "cell (rows (calculate_metrics zero_production_frame) ! 0) Cost_per_Ton = PInf"
    by (subst cost_cell) (simp_all add: zero_production_columns, simp_all add: zero_production_frame_def)
  with len show "column (calculate_metrics zero_production_frame) Cost_per_Ton = [PInf]"
    by (cases "rows (calculate_metrics zero_production_frame)") (simp_all add: column_def)
next
  let ?a = "analyze_furnace (furnace_data (calculate_metrics zero_production_frame) ''F1'')"
  have ret: "analyze_by_furnace (calculate_metrics zero_production_frame) = Inr [(''F1'', ?a)]"
    using zero_production_columns(3) columns_calculate_metrics
    by (subst analyze_by_furnace_returns) (auto simp: zero_production_furnaces)
  have "Cost_per_Ton \<in> columns (furnace_data (calculate_metrics zero_production_frame) ''F1'')"
    by (simp add: furnace_data_def cost_column_calculate_metrics zero_production_columns)
  then have avg: "avg_cost_per_ton ?a = PInf"
    by (simp add: analyze_furnace_def mean_or_0_def zero_production_cost_column fmean_def
        dropna_def)
  have m: "map (\<lambda>i. (insight_furnace i, severity i, metric_value i))
          (generate_cost_insights
             \<lparr>Cost_per_Ton_target = Fin 50000, MN_Recovery_PLC_target = Fin 80,
              SI_Recovery_PLC_target = Fin 45\<rparr> [(''F1'', ?a)])
        = [(Some ''F1'', ''high'', PInf)]"
    by (simp add: avg fgt_def)
  show "\<exists>fa. analyze_by_furnace (calculate_metrics zero_production_frame) = Inr fa
        \<and> map (\<lambda>i. (insight_furnace i, severity i, metric_value i))
             (generate_cost_insights
                \<lparr>Cost_per_Ton_target = Fin 50000, MN_Recovery_PLC_target = Fin 80,
                 SI_Recovery_PLC_target = Fin 45\<rparr> fa)
           = [(Some ''F1'', ''high'', PInf)]"
  proof (intro exI conjI)
    show "analyze_by_furnace (calculate_metrics zero_production_frame) = Inr [(''F1'', ?a)]"
      by (rule ret)
    show "map (\<lambda>i. (insight_furnace i, severity i, metric_value i))
          (generate_cost_insights
             \<lparr>Cost_per_Ton_target = Fin 50000, MN_Recovery_PLC_target = Fin 80,
              SI_Recovery_PLC_target = Fin 45\<rparr> [(''F1'', ?a)])
        = [(Some ''F1'', ''high'', PInf)]"
      by (rule m)
  qed
qed

section \<open>Unit corrections\<close>

lemma column_scale_col:
  "column (scale_col df c k) c'
   = (if c' = c then map (\<lambda>x. fmul x (Fin k)) (column df c) else column df c')"
  by (simp add: scale_col_def set_col_def set_cell_def column_def)

lemma columns_scale_col: "c \<in> columns df \<Longrightarrow> columns (scale_col df c k) = columns df"
  by (auto simp: scale_col_def set_col_def)

lemma columns_rescale_always [simp]: "columns (rescale_always c df) = columns df"
  by (simp add: rescale_always_def columns_scale_col)

lemma columns_rescale_if_max_below [simp]: "columns (rescale_if_max_below c t df) = columns df"
  by (simp add: rescale_if_max_below_def columns_scale_col)

lemma columns_correct_power [simp]: "columns (correct_power df) = columns df"
  by (simp add: correct_power_def Let_def columns_scale_col)

lemma column_rescale_always:
  "column (rescale_always c df) c'
   = (if c' = c \<and> c \<in> columns df then map (\<lambda>x. fmul x (Fin 100)) (column df c)
      else column df c')"
  by (simp add: rescale_always_def column_scale_col)

lemma column_rescale_if_max_below:
  "column (rescale_if_max_below c t df) c'
   = (if c' = c \<and> c \<in> columns df \<and> flt (fmax (column df c)) (Fin t)
      then map (\<lambda>x. fmul x (Fin 100)) (column df c)
      else column df c')"
  by (simp add: rescale_if_max_below_def column_scale_col)

lemma column_correct_power:
  "c' \<noteq> Furnace_Power_Consumption \<Longrightarrow> c' \<noteq> Aux_power_Consumption \<Longrightarrow>
   column (correct_power df) c' = column df c'"
  by (simp add: correct_power_def Let_def column_scale_col)

lemma columns_unit_corrections: "columns (unit_corrections df) = columns df"
  by (simp add: unit_corrections_def Let_def)

lemma recovery_column_unit_corrections:
  assumes "c \<in> {MN_Recovery_PLC, SI_Recovery_PLC, MN_Recovery_Feeding, SI_Recovery_Feeding}"
    and "c \<in> columns df"
  shows "column (unit_corrections df) c = map (\<lambda>x. fmul x (Fin 100)) (column df c)"
  using assms
  by (auto simp: unit_corrections_def Let_def column_correct_power column_rescale_if_max_below
      column_rescale_always)

lemma load_factor_unit_corrections:
  "Load_Factor \<in> columns df \<Longrightarrow>
   column (unit_corrections df) Load_Factor
   = (if flt (fmax (column df Load_Factor)) (Fin 10)
      then map (\<lambda>x. fmul x (Fin 100)) (column df Load_Factor)
      else column df Load_Factor)"
  by (simp add: unit_corrections_def Let_def column_correct_power column_rescale_if_max_below
      column_rescale_always)


lemma isna_scale: "isna (fmul x (Fin 100)) \<longleftrightarrow> isna x"
  by (cases x) simp_all

lemma flt_scale: "flt (fmul a (Fin 100)) (fmul b (Fin 100)) \<longleftrightarrow> flt a b"
  by (cases a; cases b) simp_all

lemma foldl_max_scale:
  "foldl (\<lambda>m x. if flt m x then x else m) (fmul y (Fin 100)) (map (\<lambda>x. fmul x (Fin 100)) ys)
   = fmul (foldl (\<lambda>m x. if flt m x then x else m) y ys) (Fin 100)"
proof (induction ys arbitrary: y)
  case Nil
  then show ?case by simp
next
  case (Cons z ys)
  show ?case
    using Cons.IH[of z] Cons.IH[of y] by (simp add: flt_scale)
qed

lemma dropna_scale:
  "dropna (map (\<lambda>x. fmul x (Fin 100)) xs) = map (\<lambda>x. fmul x (Fin 100)) (dropna xs)"
  by (induction xs) (simp_all add: dropna_def isna_scale)

lemma fmax_scale: "fmax (map (\<lambda>x. fmul x (Fin 100)) xs) = fmul (fmax xs) (Fin 100)"
proof (cases "dropna xs")
  case Nil
  then show ?thesis by (simp add: fmax_def dropna_scale)
next
  case (Cons y ys)
  then show ?thesis by (simp add: fmax_def dropna_scale foldl_max_scale)
qed

lemma load_factor_stable:
  assumes "Load_Factor \<in> columns df"
    and "\<not> flt (fmax (column df Load_Factor)) (Fin 0.1)"
  shows "column (unit_corrections (unit_corrections df)) Load_Factor
         = column (unit_corrections df) Load_Factor"
proof -
  let ?xs = "column df Load_Factor"
  have in2: "Load_Factor \<in> columns (unit_corrections df)"
    using assms(1) by (simp add: columns_unit_corrections)
  have "\<not> flt (fmax (column (unit_corrections df) Load_Factor)) (Fin 10)"
  proof (cases "flt (fmax ?xs) (Fin 10)")
    case False
    then show ?thesis using assms(1) by (simp add: load_factor_unit_corrections)
  next
    case True
    then have col: "column (unit_corrections df) Load_Factor = map (\<lambda>x. fmul x (Fin 100)) ?xs"
      using assms(1) by (simp add: load_factor_unit_corrections)
    from True assms(2) obtain m where m: "fmax ?xs = Fin m" "0.1 \<le> m"
      by (cases "fmax ?xs") auto
    then show ?thesis by (simp add: col fmax_scale)
  qed
  then show ?thesis
    using in2 by (simp add: load_factor_unit_corrections[of "unit_corrections df"])
qed

text \<open>
  C4 (as stated, refuted). The claim has the rescaling happen only below a threshold and
  a second application leave the values of the first. A manganese recovery of 0.8
  becomes 80 after one application of the unit corrections and 8000 after two.
\<close>

theorem C4_counterexample:
  "column (unit_corrections
             \<lparr>columns = {MN_Recovery_PLC, Load_Factor},
              rows = [\<lparr>furnace = ''F1'',
                       cell = blank(MN_Recovery_PLC := Fin 0.8, Load_Factor := Fin 0.85)\<rparr>]\<rparr>)
     MN_Recovery_PLC = [Fin 80]
   \<and> column (unit_corrections (unit_corrections
             \<lparr>columns = {MN_Recovery_PLC, Load_Factor},
              rows = [\<lparr>furnace = ''F1'',
                       cell = blank(MN_Recovery_PLC := Fin 0.8, Load_Factor := Fin 0.85)\<rparr>]\<rparr>))
     MN_Recovery_PLC = [Fin 8000]"
  by (simp add: recovery_column_unit_corrections columns_unit_corrections)
     (simp add: column_def)

text \<open>
  C4 (amended). The unit corrections multiply each recovery column by 100 whenever the
  column is present, whatever its values, so on these columns a second application
  multiplies again. The load factor is multiplied by 100 exactly when the largest raw
  value of its column is below 10, and on this column a second application changes
  nothing provided the largest raw value is not below 0.1.
\<close>

theorem C4_unit_corrections:
  assumes "c \<in> {MN_Recovery_PLC, SI_Recovery_PLC, MN_Recovery_Feeding, SI_Recovery_Feeding}"
    and "c \<in> columns df" and "Load_Factor \<in> columns df"
  shows "column (unit_corrections df) c = map (\<lambda>x. fmul x (Fin 100)) (column df c)
       \<and> column (unit_corrections (unit_corrections df)) c
           = map (\<lambda>x. fmul (fmul x (Fin 100)) (Fin 100)) (column df c)
       \<and> column (unit_corrections df) Load_Factor
           = (if flt (fmax (column df Load_Factor)) (Fin 10)
              then map (\<lambda>x. fmul x (Fin 100)) (column df Load_Factor)
              else column df Load_Factor)
       \<and> (\<not> flt (fmax (column df Load_Factor)) (Fin 0.1) \<longrightarrow>
            column (unit_corrections (unit_corrections df)) Load_Factor
            = column (unit_corrections df) Load_Factor)"
proof (intro conjI impI)
  show once: "column (unit_corrections df) c = map (\<lambda>x. fmul x (Fin 100)) (column df c)"
    using assms(1,2) by (rule recovery_column_unit_corrections)
  have "c \<in> columns (unit_corrections df)"
    using assms(2) by (simp add: columns_unit_corrections)
  with assms(1) have "column (unit_corrections (unit_corrections df)) c
      = map (\<lambda>x. fmul x (Fin 100)) (column (unit_corrections df) c)"
    by (rule recovery_column_unit_corrections)
  then show "column (unit_corrections (unit_corrections df)) c
           = map (\<lambda>x. fmul (fmul x (Fin 100)) (Fin 100)) (column df c)"
    by (simp add: once o_def)
  show "column (unit_corrections df) Load_Factor
           = (if flt (fmax (column df Load_Factor)) (Fin 10)
              then map (\<lambda>x. fmul x (Fin 100)) (column df Load_Factor)
              else column df Load_Factor)"
    using assms(3) by (rule load_factor_unit_corrections)
  show "column (unit_corrections (unit_corrections df)) Load_Factor
            = column (unit_corrections df) Load_Factor"
    if "\<not> flt (fmax (column df Load_Factor)) (Fin 0.1)"
    using assms(3) that by (rule load_factor_stable)
qed

theorem C4_unit_corrections_witness:
  "column (unit_corrections
             \<lparr>columns = {MN_Recovery_PLC, Load_Factor},
              rows = [\<lparr>furnace = ''F1'',
                       cell = blank(MN_Recovery_PLC := Fin 0.8, Load_Factor := Fin 0.85)\<rparr>]\<rparr>)
     Load_Factor = [Fin 85]
   \<and> column (unit_corrections (unit_corrections
             \<lparr>columns = {MN_Recovery_PLC, Load_Factor},
              rows = [\<lparr>furnace = ''F1'',
                       cell = blank(MN_Recovery_PLC := Fin 0.8, Load_Factor := Fin 0.85)\<rparr>]\<rparr>))
     Load_Factor = [Fin 85]"
proof -
  let ?df = "\<lparr>columns = {MN_Recovery_PLC, Load_Factor},
              rows = [\<lparr>furnace = ''F1'',
                       cell = blank(MN_Recovery_PLC := Fin 0.8, Load_Factor := Fin 0.85)\<rparr>]\<rparr>"
  have h: "MN_Recovery_PLC
        \<in> {MN_Recovery_PLC, SI_Recovery_PLC, MN_Recovery_Feeding, SI_Recovery_Feeding}"
      "MN_Recovery_PLC \<in> columns ?df" "Load_Factor \<in> columns ?df"
    by simp_all
  show ?thesis
    using C4_unit_corrections[OF h] by (simp add: column_def fmax_def dropna_def)
qed

section \<open>Comparison of the furnaces\<close>

lemma idxmin_None: "idxmin xs = None \<longleftrightarrow> (\<forall>x \<in> set xs. isna x)"
  by (induction xs) (auto split: option.splits)

lemma idxmax_None: "idxmax xs = None \<longleftrightarrow> (\<forall>x \<in> set xs. isna x)"
  by (induction xs) (auto split: option.splits)



lemma idxmin_not_nan: "idxmin xs = Some j \<Longrightarrow> \<not> isna (xs ! j)"
  by (induction xs arbitrary: j) (auto split: option.splits if_splits)

lemma idxmax_not_nan: "idxmax xs = Some j \<Longrightarrow> \<not> isna (xs ! j)"
  by (induction xs arbitrary: j) (auto split: option.splits if_splits)

lemma flt_irrefl: "\<not> flt x x"
  by (cases x) simp_all

lemma flt_trans: "flt a b \<Longrightarrow> flt b c \<Longrightarrow> flt a c"
  by (cases a; cases b; cases c) simp_all

lemma flt_total: "\<not> isna a \<Longrightarrow> \<not> isna b \<Longrightarrow> \<not> flt a b \<Longrightarrow> \<not> flt b a \<Longrightarrow> a = b"
  by (cases a; cases b) simp_all

lemma not_flt_trans:
  "\<not> isna a \<Longrightarrow> \<not> isna b \<Longrightarrow> \<not> flt b a \<Longrightarrow> \<not> flt c b \<Longrightarrow> \<not> flt c a"
  by (cases a; cases b; cases c) simp_all

text \<open>The value at \<open>idxmin\<close> is a smallest value of the column, at \<open>idxmax\<close> a largest.\<close>

lemma idxmin_least: "idxmin xs = Some j \<Longrightarrow> k < length xs \<Longrightarrow> \<not> flt (xs ! k) (xs ! j)"
proof (induction xs arbitrary: j k)
  case Nil
  then show ?case by simp
next
  case (Cons x xs)
  show ?case
  proof (cases "idxmin xs")
    case None
    then have all: "\<forall>y \<in> set xs. isna y" by (simp add: idxmin_None)
    from None Cons.prems(1) have j: "j = 0" by (simp split: if_splits)
    show ?thesis
    proof (cases k)
      case 0
      with j show ?thesis by (simp add: flt_irrefl)
    next
      case (Suc k')
      with Cons.prems(2) all have "isna (xs ! k')" by simp
      with Suc show ?thesis by (simp add: isna_iff)
    qed
  next
    case (Some i)
    note IH = Cons.IH[OF Some]
    have inn: "\<not> isna (xs ! i)" using Some by (rule idxmin_not_nan)
    show ?thesis
    proof (cases "isna x \<or> flt (xs ! i) x")
      case True
      with Some Cons.prems(1) have j: "j = Suc i" by simp
      show ?thesis
      proof (cases k)
        case 0
        from True show ?thesis
        proof
          assume "isna x"
          with 0 show ?thesis by (simp add: isna_iff)
        next
          assume "flt (xs ! i) x"
          then have "\<not> flt x (xs ! i)"
            using flt_trans flt_irrefl by blast
          with 0 j show ?thesis by simp
        qed
      next
        case (Suc k')
        with Cons.prems(2) IH[of k'] j show ?thesis by simp
      qed
    next
      case False
      with Some Cons.prems(1) have j: "j = 0" by simp
      show ?thesis
      proof (cases k)
        case 0
        with j show ?thesis by (simp add: flt_irrefl)
      next
        case (Suc k')
        with Cons.prems(2) have "\<not> flt (xs ! k') (xs ! i)" using IH[of k'] by simp
        with False inn have "\<not> flt (xs ! k') x"
          using not_flt_trans[of x "xs ! i" "xs ! k'"] by blast
        with Suc j show ?thesis by simp
      qed
    qed
  qed
qed


lemma best_index_None:
  "best_index lower xs = None \<longleftrightarrow> (\<forall>x \<in> set xs. isna x)"
  by (simp add: best_index_def idxmin_None idxmax_None)






lemma compare_metric_None:
  assumes "\<forall>x \<in> set (metric_values summary m). isna x"
  shows "compare_metric summary m = Inl TypeError"
proof -
  have "best_index (lower_is_better m) (metric_values summary m) = None"
    using assms by (simp add: best_index_None)
  then show ?thesis by (simp add: compare_metric_def Let_def)
qed

















section \<open>Critical issues and categories\<close>









lemma critical_insight_sel [simp]:
  "category (critical_insight f) = ''critical''"
  "severity (critical_insight f) = ''high''"
  "insight_furnace (critical_insight f) = Some f"
  "financial_impact (critical_insight f) = None"
  by (simp_all add: critical_insight_def)





lemma set_insert_desc: "set (insert_desc x ys) = insert x (set ys)"
  by (induction ys) auto

lemma set_sort_desc: "set (sort_desc xs) = set xs"
  by (induction xs) (simp_all add: sort_desc_def set_insert_desc)







lemma bucket_of_high:
  "severity i = ''high'' \<Longrightarrow> category i \<noteq> ''critical'' \<Longrightarrow> bucket_of i = ''Critical Issues''"
  by (simp add: bucket_of_def)









lemma categorize_raises:
  assumes "l \<in> set category_labels"
    and "mixed_keys (filter (\<lambda>i. bucket_of i = l)
                       (insights @ critical_issues (furnace_issues insights)))"
  shows "categorize_insights insights = Inl TypeError"
  using assms
  by (auto simp: categorize_insights_def Let_def list_ex_iff)









lemma high_issue_sel [simp]:
  "category (high_issue cat f fi) = cat"
  "severity (high_issue cat f fi) = ''high''"
  "insight_furnace (high_issue cat f fi) = Some f"
  "financial_impact (high_issue cat f fi) = fi"
  by (simp_all add: high_issue_def)

lemma severity_order_high_issue [simp]: "severity_order (high_issue cat f fi) = 3"
  by (simp add: severity_order_def)

lemma issue_key_high_issue [simp]: "issue_key (high_issue cat f fi) = f"
  by (simp add: issue_key_def)

lemma bucket_of_high_issue:
  "cat \<noteq> ''critical'' \<Longrightarrow> bucket_of (high_issue cat f fi) = ''Critical Issues''"
  by (rule bucket_of_high) simp_all

lemma key_lt_high_issue [simp]: "\<not> key_lt (high_issue cat f None) (high_issue cat' f' None)"
  by (simp add: key_lt_def)



text \<open>
  The sort key of \<open>_categorize_insights\<close> pairs the severity rank with the text
  \<open>financial_impact\<close> or the number 0. A furnace with a high cost insight (which carries
  the text) and a high power insight (which does not) makes the sort of the bucket
  \<open>Critical Issues\<close> compare a text with a number: the run raises.
\<close>

lemma mixed_financial_impact_raises:
  "categorize_insights
     [high_issue ''cost'' ''F1'' (Some ''Potential monthly savings''),
      high_issue ''power'' ''F1'' None]
   = Inl TypeError"
proof (rule categorize_raises[of "''Critical Issues''"])
  show "''Critical Issues'' \<in> set category_labels"
    by (simp add: category_labels_def)
  show "mixed_keys (filter (\<lambda>i. bucket_of i = ''Critical Issues'')
          ([high_issue ''cost'' ''F1'' (Some ''Potential monthly savings''),
            high_issue ''power'' ''F1'' None]
           @ critical_issues (furnace_issues
               [high_issue ''cost'' ''F1'' (Some ''Potential monthly savings''),
                high_issue ''power'' ''F1'' None])))"
    by (simp add: mixed_keys_def bucket_of_high_issue)
qed



end
